theory Spec2Isabelle
  imports Main
begin

section \<open>w2r: a vocabulary notebook on a one-table SQLite store\<close>

text \<open>
  The development follows \<^verbatim>\<open>src/main.go\<close>. Go strings are byte sequences and are
  modelled as \<^typ>\<open>string\<close> (a list of 8-bit characters). The queries of package
  \<^verbatim>\<open>worddb\<close> are generated by sqlc from \<^verbatim>\<open>query.sql\<close>, so they are modelled
  from the SQL statements of that file together with the schema created by \<^verbatim>\<open>Init\<close>.
\<close>

subsection \<open>The functions of package strings used by the program\<close>

text \<open>
  On strings made of ASCII bytes only, \<^verbatim>\<open>strings.TrimSpace\<close> and
  \<^verbatim>\<open>strings.ToLower\<close> work byte by byte; this part is modelled exactly. As soon as
  a byte \<open>\<ge> 0x80\<close> occurs the library decodes UTF-8 and consults the Unicode tables
  (\<^verbatim>\<open>unicode.IsSpace\<close>, \<^verbatim>\<open>unicode.ToLower\<close>). Those tables are not part of the
  program, so the two table-driven functions are parameters of the model, and every
  result below holds for each choice of them.
\<close>

record unicode =
  TrimFunc_IsSpace :: "string \<Rightarrow> string"
    \<comment> \<open>\<^verbatim>\<open>strings.TrimFunc(s, unicode.IsSpace)\<close>\<close>
  Map_ToLower :: "string \<Rightarrow> string"
    \<comment> \<open>\<^verbatim>\<open>strings.Map(unicode.ToLower, s)\<close>\<close>

definition isASCII :: "string \<Rightarrow> bool" where
  "isASCII s = list_all (\<lambda>c. (of_char c :: nat) < 128) s"

text \<open>The table \<^verbatim>\<open>asciiSpace\<close>: tab, line feed, vertical tab, form feed, carriage
  return and space.\<close>

definition asciiSpace :: "char \<Rightarrow> bool" where
  "asciiSpace c = (c \<in> set [CHR 0x09, CHR 0x0A, CHR 0x0B, CHR 0x0C, CHR 0x0D, CHR 0x20])"

definition TrimSpace :: "unicode \<Rightarrow> string \<Rightarrow> string" where
  "TrimSpace U s =
     (if isASCII s then rev (dropWhile asciiSpace (rev (dropWhile asciiSpace s)))
      else TrimFunc_IsSpace U s)"

definition toLowerASCII :: "char \<Rightarrow> char" where
  "toLowerASCII c =
     (if 65 \<le> (of_char c :: nat) \<and> (of_char c :: nat) \<le> 90
      then char_of (of_char c + (32 :: nat)) else c)"

definition ToLower :: "unicode \<Rightarrow> string \<Rightarrow> string" where
  "ToLower U s = (if isASCII s then map toLowerASCII s else Map_ToLower U s)"

text \<open>
  \<^verbatim>\<open>strings.Split(s, sep)\<close> for a separator of one byte: the pieces of \<open>s\<close> between
  the occurrences of the separator, so that there is always one piece more than there
  are separators (\<^verbatim>\<open>Split("", ",")\<close> is the one empty piece). \<open>cur\<close> is the piece
  being read.
\<close>

fun genSplit :: "string \<Rightarrow> char \<Rightarrow> string \<Rightarrow> string list" where
  "genSplit cur sep [] = [cur]"
| "genSplit cur sep (c # s) =
     (if c = sep then cur # genSplit [] sep s else genSplit (cur @ [c]) sep s)"

definition Split :: "string \<Rightarrow> char \<Rightarrow> string list" where
  "Split s sep = genSplit [] sep s"

text \<open>\<^verbatim>\<open>strings.TrimPrefix\<close> and \<^verbatim>\<open>strings.TrimSuffix\<close>: the string without the given
  prefix (suffix) when it has it, the string itself otherwise.\<close>

definition HasPrefix :: "string \<Rightarrow> string \<Rightarrow> bool" where
  "HasPrefix s p = (length p \<le> length s \<and> take (length p) s = p)"

definition TrimPrefix :: "string \<Rightarrow> string \<Rightarrow> string" where
  "TrimPrefix s p = (if HasPrefix s p then drop (length p) s else s)"

definition HasSuffix :: "string \<Rightarrow> string \<Rightarrow> bool" where
  "HasSuffix s p = (length p \<le> length s \<and> drop (length s - length p) s = p)"

definition TrimSuffix :: "string \<Rightarrow> string \<Rightarrow> string" where
  "TrimSuffix s p = (if HasSuffix s p then take (length s - length p) s else s)"

subsection \<open>The Word Filter\<close>

text \<open>
  \<^verbatim>\<open>regexp.MatchString("^[a-z]+$", s)\<close>: without flags, \<open>^\<close> and \<open>$\<close> match at the two
  ends of the text only, and a byte \<open>\<ge> 0x80\<close> is never part of a rune in \<open>a\<close>-\<open>z\<close>; so
  the match holds exactly for a non-empty string of bytes \<open>0x61\<close> to \<open>0x7A\<close>. The
  pattern compiles, so the discarded error is always nil.
\<close>

definition lower_az :: "char \<Rightarrow> bool" where
  "lower_az c = (97 \<le> (of_char c :: nat) \<and> (of_char c :: nat) \<le> 122)"

definition isValidWord :: "string \<Rightarrow> bool" where
  "isValidWord s = (s \<noteq> [] \<and> list_all lower_az s)"

text \<open>The loop of \<^verbatim>\<open>filterWords\<close> over the pieces, with the slice \<open>results\<close> it
  appends to.\<close>

fun filterWords_loop :: "unicode \<Rightarrow> string list \<Rightarrow> string list \<Rightarrow> string list" where
  "filterWords_loop U [] results = results"
| "filterWords_loop U (word # words) results =
     (let word1 = TrimSpace U word;
          word2 = ToLower U word1
      in if isValidWord word2 then filterWords_loop U words (results @ [word2])
         else filterWords_loop U words results)"

definition filterWords :: "unicode \<Rightarrow> string \<Rightarrow> string list" where
  "filterWords U s = filterWords_loop U (Split s (CHR '','')) []"

subsection \<open>The persistent store\<close>

text \<open>
  A row of table \<^verbatim>\<open>word\<close>, as the generated struct \<^verbatim>\<open>worddb.Word\<close> holds it:
  \<^verbatim>\<open>Word string\<close>, \<^verbatim>\<open>ZhTrans sql.NullString\<close>, \<^verbatim>\<open>AddedCount sql.NullInt64\<close>,
  \<^verbatim>\<open>LookupCount sql.NullInt64\<close>. A nullable column is an option, \<open>None\<close> being
  NULL. The INTEGER columns are taken as unbounded integers: a counter starts at 0 and
  grows by one per add, so the 64-bit limit is out of reach of the program.
\<close>

record Word =
  Word :: string
  ZhTrans :: "string option"
  AddedCount :: "int option"
  LookupCount :: "int option"

text \<open>
  The database file: \<open>None\<close> while table \<^verbatim>\<open>word\<close> has not been created, otherwise
  its rows in the order of insertion, which is the order \<^verbatim>\<open>SELECT *\<close> scans them in.
\<close>

type_synonym database = "Word list option"

datatype dberror = NoSuchTable | TableExists | UniqueConstraint | ErrNoRows | ReadOnly | DiskFull

text \<open>The fields \<^verbatim>\<open>Int64\<close> and \<^verbatim>\<open>String\<close> of a scanned \<^verbatim>\<open>sql.NullInt64\<close> and
  \<^verbatim>\<open>sql.NullString\<close>: the zero value when the column is NULL.\<close>

definition Int64 :: "int option \<Rightarrow> int" where
  "Int64 v = (case v of None \<Rightarrow> 0 | Some n \<Rightarrow> n)"

definition String :: "string option \<Rightarrow> string" where
  "String v = (case v of None \<Rightarrow> [] | Some t \<Rightarrow> t)"

definition Valid :: "'a option \<Rightarrow> bool" where
  "Valid v = (v \<noteq> None)"

text \<open>\<^verbatim>\<open>added_count+1\<close> in SQL: NULL plus one is NULL.\<close>

definition sql_plus1 :: "int option \<Rightarrow> int option" where
  "sql_plus1 v = (case v of None \<Rightarrow> None | Some n \<Rightarrow> Some (n + 1))"

text \<open>
  The statements of \<^verbatim>\<open>query.sql\<close>. Each returns what the generated Go function
  returns (with the error as an option, \<open>None\<close> for nil) and, for a statement that
  writes, the database afterwards. A statement fails when the table is missing, the
  INSERT also when the primary key is already there, and \<^verbatim>\<open>GetWord\<close> with
  \<^verbatim>\<open>sql.ErrNoRows\<close> when no row matches. Here a statement fails for no other
  reason; failures that come from outside the table (\<open>ReadOnly\<close>, \<open>DiskFull\<close>) are
  an input of the run and are added further down. The row that \<^verbatim>\<open>CreateWord\<close> returns is the row it has
  appended; its only caller discards it, so the model returns the error alone. The
  text comparison \<^verbatim>\<open>word = ?\<close> is equality of the byte strings.
\<close>

definition GetWord :: "database \<Rightarrow> string \<Rightarrow> dberror + Word" where
  "GetWord d w =
     (case d of
        None \<Rightarrow> Inl NoSuchTable
      | Some rows \<Rightarrow>
          (case find (\<lambda>r. Word r = w) rows of None \<Rightarrow> Inl ErrNoRows | Some r \<Rightarrow> Inr r))"

definition Listword :: "database \<Rightarrow> Word list \<times> dberror option" where
  "Listword d = (case d of None \<Rightarrow> ([], Some NoSuchTable) | Some rows \<Rightarrow> (rows, None))"

definition CountWord :: "database \<Rightarrow> string \<Rightarrow> int \<times> dberror option" where
  "CountWord d w =
     (case d of
        None \<Rightarrow> (0, Some NoSuchTable)
      | Some rows \<Rightarrow> (int (length (filter (\<lambda>r. Word r = w) rows)), None))"

definition CreateWord :: "database \<Rightarrow> string \<Rightarrow> string option \<Rightarrow> dberror option \<times> database" where
  "CreateWord d w zh =
     (case d of
        None \<Rightarrow> (Some NoSuchTable, None)
      | Some rows \<Rightarrow>
          if list_ex (\<lambda>r. Word r = w) rows then (Some UniqueConstraint, Some rows)
          else (None, Some (rows @
                  [\<lparr>Word = w, ZhTrans = zh, AddedCount = Some 0, LookupCount = Some 0\<rparr>])))"

definition AddWordCount :: "database \<Rightarrow> string \<Rightarrow> dberror option \<times> database" where
  "AddWordCount d w =
     (case d of
        None \<Rightarrow> (Some NoSuchTable, None)
      | Some rows \<Rightarrow>
          (None, Some (map (\<lambda>r. if Word r = w
                                 then r\<lparr>AddedCount := sql_plus1 (AddedCount r)\<rparr> else r) rows)))"

definition DeleteWord :: "database \<Rightarrow> string \<Rightarrow> dberror option \<times> database" where
  "DeleteWord d w =
     (case d of
        None \<Rightarrow> (Some NoSuchTable, None)
      | Some rows \<Rightarrow> (None, Some (filter (\<lambda>r. Word r \<noteq> w) rows)))"

text \<open>\<^verbatim>\<open>CREATE TABLE word (...)\<close>, the statement \<^verbatim>\<open>Init\<close> executes.\<close>

definition CreateTable :: "database \<Rightarrow> dberror option \<times> database" where
  "CreateTable d = (case d of None \<Rightarrow> (None, Some []) | Some rows \<Rightarrow> (Some TableExists, Some rows))"

subsection \<open>The process and its surroundings\<close>

text \<open>
  What a run of the program acts on: the database file, what it has printed on
  standard output with \<^verbatim>\<open>fmt.Printf\<close>, what it has written on standard error (the
  log and the usage text), and the HTTP responses it has written. Each call is recorded
  with its arguments; laying them out in columns is the library's work.
\<close>

datatype printed =
    HeaderLine string string string string
    \<comment> \<open>\<^verbatim>\<open>"%15s %10s %12s %-12s\n"\<close>\<close>
  | WordLine string int int string
    \<comment> \<open>\<^verbatim>\<open>"%15s %10d %12d %-12s\n"\<close>\<close>
  | VersionLine string
    \<comment> \<open>\<^verbatim>\<open>"word version: %s\n"\<close>\<close>

datatype logged =
    UsageText
    \<comment> \<open>\<^verbatim>\<open>flag.Usage()\<close>\<close>
  | LogInitError dberror
    \<comment> \<open>\<^verbatim>\<open>log.Printf("%q: %s\n", err, sqlStmt)\<close>\<close>
  | LogInit
    \<comment> \<open>\<^verbatim>\<open>log.Printf("init database")\<close>\<close>
  | LogAdd string
    \<comment> \<open>\<^verbatim>\<open>log.Printf("add word '%s'", word)\<close>\<close>
  | LogAddedCount string
    \<comment> \<open>\<^verbatim>\<open>log.Printf("word '%s' already in database, added_count++", word)\<close>\<close>
  | LogDel string
    \<comment> \<open>\<^verbatim>\<open>log.Printf("del word '%s'", word)\<close>\<close>
  | LogStart int
    \<comment> \<open>\<^verbatim>\<open>log.Printf("Start web server at http://127.0.0.1:%d", port)\<close>\<close>
  | LogFatal dberror
    \<comment> \<open>\<^verbatim>\<open>log.Fatal(err)\<close>\<close>
  | LogFatalPort
    \<comment> \<open>\<^verbatim>\<open>log.Fatal("port must be between 0~65535")\<close>\<close>
  | LogFatalTemplate string
    \<comment> \<open>\<^verbatim>\<open>log.Fatal(err)\<close> for the error of \<^verbatim>\<open>template.ParseFS\<close>\<close>
  | LogGetAllWordsError dberror
    \<comment> \<open>\<^verbatim>\<open>log.Printf("get all words error: %v", err)\<close>, earlier revision only\<close>
  | LogGetRowError
    \<comment> \<open>\<^verbatim>\<open>log.Printf("get row error: %v", err)\<close>, earlier revision only\<close>

text \<open>A response: the page a template wrote, \<^verbatim>\<open>http.Error(rw, msg, code)\<close>, or
  \<^verbatim>\<open>http.Redirect(rw, r, url, code)\<close>, each with the arguments of the call.\<close>

datatype cell = Link string string | Number int | Text string

type_synonym page = "cell list list"

datatype response = Page page | Error string nat | Redirect string nat

record world =
  db :: database
  stdout :: "printed list"
  stderr :: "logged list"
  responses :: "response list"

text \<open>
  How a call ends: it returns, or \<^verbatim>\<open>log.Fatal\<close> has ended the process with status 1,
  or (for the web server) it is still serving when the requests at hand are answered.
\<close>

datatype outcome = Returned world | Fatal world | Serving world

fun final :: "outcome \<Rightarrow> world" where
  "final (Returned s) = s"
| "final (Fatal s) = s"
| "final (Serving s) = s"

fun is_Fatal :: "outcome \<Rightarrow> bool" where
  "is_Fatal (Fatal s) = True"
| "is_Fatal (Returned s) = False"
| "is_Fatal (Serving s) = False"

subsection \<open>The methods of WordDB\<close>

definition Init :: "world \<Rightarrow> world" where
  "Init s =
     (case CreateTable (db s) of
        (Some err, d) \<Rightarrow> s\<lparr>db := d, stderr := stderr s @ [LogInitError err]\<rparr>
      | (None, d) \<Rightarrow> s\<lparr>db := d, stderr := stderr s @ [LogInit]\<rparr>)"

text \<open>\<^verbatim>\<open>AddWord\<close>: the error of \<^verbatim>\<open>CountWord\<close> is discarded, and \<open>count\<close> is 0 when
  the query failed.\<close>

definition AddWord :: "string \<Rightarrow> world \<Rightarrow> outcome" where
  "AddWord word s =
     (let count = fst (CountWord (db s) word) in
      if count = 0 then
        (case CreateWord (db s) word None of
           (Some err, d) \<Rightarrow> Fatal (s\<lparr>db := d, stderr := stderr s @ [LogFatal err]\<rparr>)
         | (None, d) \<Rightarrow> Returned (s\<lparr>db := d, stderr := stderr s @ [LogAdd word]\<rparr>))
      else
        (case AddWordCount (db s) word of
           (Some err, d) \<Rightarrow> Fatal (s\<lparr>db := d, stderr := stderr s @ [LogFatal err]\<rparr>)
         | (None, d) \<Rightarrow> Returned (s\<lparr>db := d, stderr := stderr s @ [LogAddedCount word]\<rparr>)))"

text \<open>One row of the summary: the four values \<^verbatim>\<open>ShowSummary\<close> passes to
  \<^verbatim>\<open>Printf\<close>.\<close>

definition summary_line :: "Word \<Rightarrow> printed" where
  "summary_line word =
     (let lookupCount = (if \<not> Valid (LookupCount word) then 0 else Int64 (LookupCount word));
          zhTrans = (if Valid (ZhTrans word) then String (ZhTrans word) else [])
      in WordLine (Word word) (Int64 (AddedCount word)) lookupCount zhTrans)"

text \<open>\<^verbatim>\<open>ShowSummary\<close>: the error of \<^verbatim>\<open>Listword\<close> is discarded, and \<open>words\<close> is
  empty when the query failed.\<close>

definition ShowSummary :: "world \<Rightarrow> world" where
  "ShowSummary s =
     (let words = fst (Listword (db s)) in
      s\<lparr>stdout := stdout s @
           HeaderLine ''Word'' ''Added Count'' ''Lookup Count'' ''Translation''
           # map summary_line words\<rparr>)"

definition DelWord :: "string \<Rightarrow> world \<Rightarrow> outcome" where
  "DelWord word s =
     (case DeleteWord (db s) word of
        (Some err, d) \<Rightarrow> Fatal (s\<lparr>db := d, stderr := stderr s @ [LogFatal err]\<rparr>)
      | (None, d) \<Rightarrow> Returned (s\<lparr>db := d, stderr := stderr s @ [LogDel word]\<rparr>))"

subsection \<open>The web server\<close>

text \<open>
  A parsed template is what \<^verbatim>\<open>Execute\<close> does with the rows it is given: the page it
  writes, or an error. The file \<^verbatim>\<open>words.html\<close> the program embeds is a parameter:
  the result of \<^verbatim>\<open>template.ParseFS\<close>, an error or the parsed template.
\<close>

type_synonym template = "Word list \<Rightarrow> string + page"

definition root_handler :: "template \<Rightarrow> database \<Rightarrow> response" where
  "root_handler tmpl d =
     (let words = fst (Listword d) in
      case tmpl words of
        Inl err \<Rightarrow> Error err 500
      | Inr p \<Rightarrow> Page p)"

definition dictionary_url :: string where
  "dictionary_url = ''https://dictionary.cambridge.org/dictionary/english-chinese-simplified/''"

text \<open>The handler of \<^verbatim>\<open>/word/\<close>, on \<^verbatim>\<open>r.URL.Path\<close>.\<close>

definition word_handler :: "string \<Rightarrow> response" where
  "word_handler path =
     (let word1 = TrimPrefix path ''/word/'';
          word2 = TrimSuffix word1 ''/''
      in if word2 = [] then Error ''word not found'' 404
         else Redirect (dictionary_url @ word2) 301)"

text \<open>A request, as the \<^verbatim>\<open>ServeMux\<close> hands it over: the handler it chose (the one
  registered for \<^verbatim>\<open>/\<close> or the one for \<^verbatim>\<open>/word/\<close>) and \<^verbatim>\<open>r.URL.Path\<close>.\<close>

datatype request = ToRoot string | ToWord string

fun handle :: "template \<Rightarrow> request \<Rightarrow> world \<Rightarrow> world" where
  "handle tmpl (ToRoot path) s = s\<lparr>responses := responses s @ [root_handler tmpl (db s)]\<rparr>"
| "handle tmpl (ToWord path) s = s\<lparr>responses := responses s @ [word_handler path]\<rparr>"

text \<open>
  \<^verbatim>\<open>RunWebServer\<close> on the requests that arrive while it runs. The listener is taken
  to bind, so \<^verbatim>\<open>ListenAndServe\<close> does not return.
\<close>

definition RunWebServer :: "string + template \<Rightarrow> int \<Rightarrow> request list \<Rightarrow> world \<Rightarrow> outcome" where
  "RunWebServer parsed port reqs s =
     (case parsed of
        Inl err \<Rightarrow> Fatal (s\<lparr>stderr := stderr s @ [LogFatalTemplate err]\<rparr>)
      | Inr tmpl \<Rightarrow>
          Serving (fold (handle tmpl) reqs (s\<lparr>stderr := stderr s @ [LogStart port]\<rparr>)))"

subsection \<open>The command dispatcher\<close>

text \<open>The variables \<open>init\<close>, \<open>add\<close>, \<open>show\<close>, \<open>del\<close>, \<open>daemon\<close>, \<open>port\<close> and
  \<open>showVersion\<close> of \<^verbatim>\<open>main\<close> after \<^verbatim>\<open>flag.Parse()\<close>, and \<^verbatim>\<open>flag.NFlag()\<close>, the
  number of flags that were set on the command line.\<close>

record flags =
  init_flag :: bool
  add_flag :: string
  show_flag :: bool
  del_flag :: string
  daemon_flag :: bool
  port_flag :: int
  showVersion_flag :: bool
  NFlag :: nat

definition Version :: string where
  "Version = ''0.1''"

text \<open>The loop of \<^verbatim>\<open>main\<close> over the filtered words: \<^verbatim>\<open>log.Fatal\<close> in \<^verbatim>\<open>AddWord\<close>
  ends the process, so the words after it are not reached.\<close>

fun add_words :: "string list \<Rightarrow> world \<Rightarrow> outcome" where
  "add_words [] s = Returned s"
| "add_words (word # words) s =
     (case AddWord word s of
        Returned s' \<Rightarrow> add_words words s'
      | Fatal s' \<Rightarrow> Fatal s'
      | Serving s' \<Rightarrow> Serving s')"

text \<open>\<^verbatim>\<open>main\<close>. \<open>getDb\<close> is taken to open the database file of the world.\<close>

definition main :: "unicode \<Rightarrow> string + template \<Rightarrow> flags \<Rightarrow> request list \<Rightarrow> world \<Rightarrow> outcome" where
  "main U parsed f reqs s =
     (if NFlag f = 0 then Returned (s\<lparr>stderr := stderr s @ [UsageText]\<rparr>)
      else if showVersion_flag f then Returned (s\<lparr>stdout := stdout s @ [VersionLine Version]\<rparr>)
      else if daemon_flag f then
        (if port_flag f \<le> 0 \<or> port_flag f > 65535
         then Fatal (s\<lparr>stderr := stderr s @ [LogFatalPort]\<rparr>)
         else RunWebServer parsed (port_flag f) reqs s)
      else if init_flag f then Returned (Init s)
      else if add_flag f \<noteq> [] then add_words (filterWords U (add_flag f)) s
      else if del_flag f \<noteq> [] then DelWord (del_flag f) s
      else if show_flag f then Returned (ShowSummary s)
      else Returned s)"

text \<open>
  The exposed operations, each as the command line that asks for it
  (\<^verbatim>\<open>-init\<close>, \<^verbatim>\<open>-a words\<close>, \<^verbatim>\<open>-d word\<close>, \<^verbatim>\<open>-s\<close>, \<^verbatim>\<open>-D -p port\<close>); the server
  comes with the requests it receives while it runs.
\<close>

datatype operation =
  OpInit | OpAdd string | OpDelete string | OpShow | OpServe int "request list"

definition no_flags :: flags where
  "no_flags = \<lparr>init_flag = False, add_flag = [], show_flag = False, del_flag = [],
     daemon_flag = False, port_flag = 8080, showVersion_flag = False, NFlag = 0\<rparr>"

fun command_line :: "operation \<Rightarrow> flags" where
  "command_line OpInit = no_flags\<lparr>init_flag := True, NFlag := 1\<rparr>"
| "command_line (OpAdd a) = no_flags\<lparr>add_flag := a, NFlag := 1\<rparr>"
| "command_line (OpDelete w) = no_flags\<lparr>del_flag := w, NFlag := 1\<rparr>"
| "command_line OpShow = no_flags\<lparr>show_flag := True, NFlag := 1\<rparr>"
| "command_line (OpServe p reqs) = no_flags\<lparr>daemon_flag := True, port_flag := p, NFlag := 2\<rparr>"

fun requests :: "operation \<Rightarrow> request list" where
  "requests (OpServe p reqs) = reqs"
| "requests OpInit = []"
| "requests (OpAdd a) = []"
| "requests (OpDelete w) = []"
| "requests OpShow = []"

text \<open>One run of the program for an operation, and a sequence of runs, each on the
  world the run before has left.\<close>

definition perform :: "unicode \<Rightarrow> string + template \<Rightarrow> operation \<Rightarrow> world \<Rightarrow> outcome" where
  "perform U parsed opn s = main U parsed (command_line opn) (requests opn) s"

fun run :: "unicode \<Rightarrow> string + template \<Rightarrow> operation list \<Rightarrow> world \<Rightarrow> world" where
  "run U parsed [] s = s"
| "run U parsed (opn # ops) s = run U parsed ops (final (perform U parsed opn s))"

subsection \<open>The two renderers of the Reporting View\<close>

text \<open>The values of one record that a renderer shows: word, added count, lookup
  count, translation.\<close>

type_synonym fields = "string \<times> int \<times> int \<times> string"

fun printed_fields :: "printed \<Rightarrow> fields list" where
  "printed_fields (WordLine w a l t) = [(w, a, l, t)]"
| "printed_fields (HeaderLine h1 h2 h3 h4) = []"
| "printed_fields (VersionLine v) = []"

fun row_fields :: "cell list \<Rightarrow> fields list" where
  "row_fields [Link href w, Number a, Number l, Text t] = [(w, a, l, t)]"
| "row_fields cells = []"

text \<open>
  Modelled from the spec: the template file \<^verbatim>\<open>words.html\<close>, which \<^verbatim>\<open>main.go\<close>
  embeds and which is not among the sources. The spec describes the page as a hypertext
  table of all words with the columns word, addedCount, lookupCount and translation
  (the empty string if absent), each word linking to its per-word detail path
  \<^verbatim>\<open>/word/<word>\<close>.
\<close>

definition words_html_row :: "Word \<Rightarrow> cell list" where
  "words_html_row word =
     [Link (''/word/'' @ Word word) (Word word), Number (Int64 (AddedCount word)),
      Number (Int64 (LookupCount word)), Text (String (ZhTrans word))]"

definition words_html :: template where
  "words_html words = Inr (map words_html_row words)"

subsection \<open>The earlier revision of the program\<close>

text \<open>
  The second Go file of the repository is an earlier revision of \<^verbatim>\<open>main.go\<close> that
  talks to the database directly. Its names carry a \<open>0\<close> here. Its struct \<^verbatim>\<open>Word\<close>
  has plain fields, so \<^verbatim>\<open>rows.Scan\<close> fails on a row with a NULL column;
  \<^verbatim>\<open>GetAllWords\<close> logs that and goes on with the next row.
\<close>

record Word0 =
  Word0 :: string
  ZhTrans0 :: string
  AddedCount0 :: int
  LookupCount0 :: int

definition Scan0 :: "Word \<Rightarrow> Word0 option" where
  "Scan0 r =
     (case (ZhTrans r, AddedCount r, LookupCount r) of
        (Some t, Some a, Some l) \<Rightarrow>
          Some \<lparr>Word0 = Word r, ZhTrans0 = t, AddedCount0 = a, LookupCount0 = l\<rparr>
      | _ \<Rightarrow> None)"

fun GetAllWords0_loop :: "Word list \<Rightarrow> Word0 list \<times> logged list \<Rightarrow> Word0 list \<times> logged list" where
  "GetAllWords0_loop [] (words, lg) = (words, lg)"
| "GetAllWords0_loop (r # rows) (words, lg) =
     (case Scan0 r of
        None \<Rightarrow> GetAllWords0_loop rows (words, lg @ [LogGetRowError])
      | Some word \<Rightarrow> GetAllWords0_loop rows (words @ [word], lg))"

definition GetAllWords0 :: "world \<Rightarrow> Word0 list \<times> world" where
  "GetAllWords0 s =
     (case db s of
        None \<Rightarrow> ([], s\<lparr>stderr := stderr s @ [LogGetAllWordsError NoSuchTable]\<rparr>)
      | Some rows \<Rightarrow>
          (let (words, lg) = GetAllWords0_loop rows ([], stderr s)
           in (words, s\<lparr>stderr := lg\<rparr>)))"

definition ShowSummary0 :: "world \<Rightarrow> world" where
  "ShowSummary0 s =
     (let (words, s1) = GetAllWords0 s in
      s1\<lparr>stdout := stdout s1 @
            HeaderLine ''Word'' ''Added Count'' ''Lookup Count'' ''Translation''
            # map (\<lambda>word. WordLine (Word0 word) (AddedCount0 word) (LookupCount0 word)
                               (ZhTrans0 word)) words\<rparr>)"

text \<open>The template written out in the handler of \<^verbatim>\<open>/\<close>: a header row, then one
  row per word.\<close>

definition template0 :: "Word0 list \<Rightarrow> page" where
  "template0 words =
     [Text ''Word'', Text ''Added Count'', Text ''Lookup Count'', Text ''Translation'']
     # map (\<lambda>word. [Link (''/word/'' @ Word0 word) (Word0 word), Number (AddedCount0 word),
                      Number (LookupCount0 word), Text (ZhTrans0 word)]) words"

definition root_handler0 :: "world \<Rightarrow> world" where
  "root_handler0 s =
     (let (words, s1) = GetAllWords0 s in
      s1\<lparr>responses := responses s1 @ [Page (template0 words)]\<rparr>)"

subsection \<open>Statements that fail for a reason outside the table\<close>

text \<open>
  A statement can also fail although the table would allow it: the file is read-only
  or the disk is full. Whether the driver reports such an error is an input of the
  run; in the methods above it never does. The versions below take that input: for each
  statement the method executes, either \<open>None\<close>, and the statement runs as above, or
  the error the driver reports, and the statement changes nothing. A failed
  \<^verbatim>\<open>CountWord\<close> returns the count 0 with its error.
\<close>

definition CountWord_driver :: "dberror option \<Rightarrow> database \<Rightarrow> string \<Rightarrow> int \<times> dberror option" where
  "CountWord_driver e d w = (case e of None \<Rightarrow> CountWord d w | Some err \<Rightarrow> (0, Some err))"

definition write_driver ::
  "dberror option \<Rightarrow> database \<Rightarrow> dberror option \<times> database \<Rightarrow> dberror option \<times> database" where
  "write_driver e d result = (case e of None \<Rightarrow> result | Some err \<Rightarrow> (Some err, d))"

text \<open>\<^verbatim>\<open>AddWord\<close> with the driver's verdicts on its query and on its write.\<close>

definition AddWord_driver :: "dberror option \<times> dberror option \<Rightarrow> string \<Rightarrow> world \<Rightarrow> outcome" where
  "AddWord_driver e word s =
     (let count = fst (CountWord_driver (fst e) (db s) word) in
      if count = 0 then
        (case write_driver (snd e) (db s) (CreateWord (db s) word None) of
           (Some err, d) \<Rightarrow> Fatal (s\<lparr>db := d, stderr := stderr s @ [LogFatal err]\<rparr>)
         | (None, d) \<Rightarrow> Returned (s\<lparr>db := d, stderr := stderr s @ [LogAdd word]\<rparr>))
      else
        (case write_driver (snd e) (db s) (AddWordCount (db s) word) of
           (Some err, d) \<Rightarrow> Fatal (s\<lparr>db := d, stderr := stderr s @ [LogFatal err]\<rparr>)
         | (None, d) \<Rightarrow> Returned (s\<lparr>db := d, stderr := stderr s @ [LogAddedCount word]\<rparr>)))"

definition DelWord_driver :: "dberror option \<Rightarrow> string \<Rightarrow> world \<Rightarrow> outcome" where
  "DelWord_driver e word s =
     (case write_driver e (db s) (DeleteWord (db s) word) of
        (Some err, d) \<Rightarrow> Fatal (s\<lparr>db := d, stderr := stderr s @ [LogFatal err]\<rparr>)
      | (None, d) \<Rightarrow> Returned (s\<lparr>db := d, stderr := stderr s @ [LogDel word]\<rparr>))"

text \<open>The loop of \<^verbatim>\<open>main\<close> over the filtered words, with the verdicts for the calls
  of \<^verbatim>\<open>AddWord\<close> in their order; where the list of verdicts ends, no statement
  fails for an outside reason.\<close>

fun add_words_driver ::
  "(dberror option \<times> dberror option) list \<Rightarrow> string list \<Rightarrow> world \<Rightarrow> outcome" where
  "add_words_driver es [] s = Returned s"
| "add_words_driver [] (word # words) s =
     (case AddWord_driver (None, None) word s of
        Returned s' \<Rightarrow> add_words_driver [] words s'
      | Fatal s' \<Rightarrow> Fatal s'
      | Serving s' \<Rightarrow> Serving s')"
| "add_words_driver (e # es) (word # words) s =
     (case AddWord_driver e word s of
        Returned s' \<Rightarrow> add_words_driver es words s'
      | Fatal s' \<Rightarrow> Fatal s'
      | Serving s' \<Rightarrow> Serving s')"

section \<open>Properties\<close>

subsection \<open>The Word Filter\<close>

lemmas string_defs = filterWords_def Split_def TrimSpace_def ToLower_def isASCII_def
  asciiSpace_def toLowerASCII_def isValidWord_def lower_az_def char_of_eq_iff Let_def

lemma filterWords_loop_eq:
  "filterWords_loop U ws acc =
     acc @ filter isValidWord (map (\<lambda>piece. ToLower U (TrimSpace U piece)) ws)"
  by (induction ws arbitrary: acc) (simp_all add: Let_def)

lemma genSplit_no_sep:
  "sep \<notin> set cur \<Longrightarrow> p \<in> set (genSplit cur sep s) \<Longrightarrow> sep \<notin> set p"
proof (induction s arbitrary: cur)
  case Nil
  then show ?case by simp
next
  case (Cons c s)
  show ?case
  proof (cases "c = sep")
    case True
    with Cons.prems have "p = cur \<or> p \<in> set (genSplit [] sep s)" by simp
    then show ?thesis
      using Cons.prems(1) Cons.IH [of "[]"] by auto
  next
    case False
    with Cons.prems have "p \<in> set (genSplit (cur @ [c]) sep s)" by simp
    then show ?thesis
      using Cons.prems(1) False Cons.IH [of "cur @ [c]"] by auto
  qed
qed

lemma genSplit_concat:
  "concat (map ((#) sep) (genSplit cur sep s)) = sep # cur @ s"
  by (induction s arbitrary: cur) simp_all

text \<open>
  Claim C1. For every input string, \<^verbatim>\<open>filterWords\<close> splits it on the comma (the pieces
  hold no comma and, put together again with commas, give the input), trims and
  lowercases each piece and keeps exactly the pieces that then match \<^verbatim>\<open>^[a-z]+$\<close>,
  in their order and with their repetitions. Every word of the result matches the
  pattern; the result may be empty; and \<^verbatim>\<open>"Cat, dog2, , ELEPHANT "\<close> gives
  \<^verbatim>\<open>["cat", "elephant"]\<close>.
\<close>

theorem filterWords_spec:
  "filterWords U s =
     filter isValidWord (map (\<lambda>piece. ToLower U (TrimSpace U piece)) (Split s (CHR '','')))
   \<and> (\<forall>piece \<in> set (Split s (CHR '','')). CHR '','' \<notin> set piece)
   \<and> concat (map ((#) (CHR '','')) (Split s (CHR '',''))) = CHR '','' # s
   \<and> (\<forall>w \<in> set (filterWords U s). isValidWord w)
   \<and> filterWords U ''Cat, dog2, , ELEPHANT '' = [''cat'', ''elephant'']
   \<and> filterWords U ''b,a,b'' = [''b'', ''a'', ''b'']
   \<and> filterWords U [] = []"
proof (intro conjI)
  show eq: "filterWords U s =
     filter isValidWord (map (\<lambda>piece. ToLower U (TrimSpace U piece)) (Split s (CHR '','')))"
    by (simp add: filterWords_def filterWords_loop_eq)
  show "\<forall>piece \<in> set (Split s (CHR '','')). CHR '','' \<notin> set piece"
    using genSplit_no_sep [of "CHR '',''" "[]"] by (auto simp: Split_def)
  show "concat (map ((#) (CHR '','')) (Split s (CHR '',''))) = CHR '','' # s"
    by (simp add: Split_def genSplit_concat)
  show "\<forall>w \<in> set (filterWords U s). isValidWord w"
    by (simp add: eq)
  show "filterWords U ''Cat, dog2, , ELEPHANT '' = [''cat'', ''elephant'']"
    by (simp add: string_defs)
  show "filterWords U ''b,a,b'' = [''b'', ''a'', ''b'']"
    by (simp add: string_defs)
  show "filterWords U [] = []"
    by (simp add: string_defs)
qed

theorem filterWords_spec_witness:
  "filterWords \<lparr>TrimFunc_IsSpace = id, Map_ToLower = id\<rparr> ''x, Y2 ,Z'' = [''x'', ''z'']
   \<and> list_all isValidWord (filterWords \<lparr>TrimFunc_IsSpace = id, Map_ToLower = id\<rparr> ''x, Y2 ,Z'')"
  using filterWords_spec [of "\<lparr>TrimFunc_IsSpace = id, Map_ToLower = id\<rparr>" "''x, Y2 ,Z''"]
  by (simp add: string_defs)

subsection \<open>The Upsert Operation\<close>

lemma AddWord_absent:
  assumes "db s = Some rows" and "\<forall>r \<in> set rows. Word r \<noteq> w"
  shows "AddWord w s =
    Returned (s\<lparr>db := Some (rows @
        [\<lparr>Word = w, ZhTrans = None, AddedCount = Some 0, LookupCount = Some 0\<rparr>]),
      stderr := stderr s @ [LogAdd w]\<rparr>)"
proof -
  from assms(2) have "filter (\<lambda>r. Word r = w) rows = []"
    by (simp add: filter_empty_conv)
  moreover from assms(2) have "\<not> list_ex (\<lambda>r. Word r = w) rows"
    by (simp add: list_ex_iff)
  ultimately show ?thesis
    using assms(1) by (simp add: AddWord_def CountWord_def CreateWord_def)
qed

lemma AddWord_present:
  assumes "db s = Some rows" and "\<exists>r \<in> set rows. Word r = w"
  shows "AddWord w s =
    Returned (s\<lparr>db := Some (map (\<lambda>r. if Word r = w
                                 then r\<lparr>AddedCount := sql_plus1 (AddedCount r)\<rparr> else r) rows),
      stderr := stderr s @ [LogAddedCount w]\<rparr>)"
proof -
  from assms(2) have "filter (\<lambda>r. Word r = w) rows \<noteq> []"
    by (simp add: filter_empty_conv)
  then show ?thesis
    using assms(1) by (simp add: AddWord_def CountWord_def AddWordCount_def)
qed

lemma AddWord_no_table:
  assumes "db s = None"
  shows "AddWord w s = Fatal (s\<lparr>db := None, stderr := stderr s @ [LogFatal NoSuchTable]\<rparr>)"
  using assms by (simp add: AddWord_def CountWord_def CreateWord_def)

text \<open>
  Claim C2. When the table holds no record for a word, \<^verbatim>\<open>AddWord\<close> appends one
  record for it, and afterwards that is the only record of the word: its added count is
  0 (not 1), its lookup count is 0 and its translation is absent (NULL), which the
  summary shows as the empty string.
\<close>

theorem AddWord_creates_record:
  assumes "db s = Some rows" and "\<forall>r \<in> set rows. Word r \<noteq> w"
  shows "\<exists>new. AddWord w s =
           Returned (s\<lparr>db := Some (rows @ [new]), stderr := stderr s @ [LogAdd w]\<rparr>)
         \<and> filter (\<lambda>r. Word r = w) (rows @ [new]) = [new]
         \<and> fst (CountWord (Some (rows @ [new])) w) = 1
         \<and> Word new = w \<and> AddedCount new = Some 0 \<and> LookupCount new = Some 0
         \<and> ZhTrans new = None
         \<and> summary_line new = WordLine w 0 0 []"
proof -
  let ?new = "\<lparr>Word = w, ZhTrans = None, AddedCount = Some 0, LookupCount = Some 0\<rparr>"
  from assms(2) have none: "filter (\<lambda>r. Word r = w) rows = []"
    by (simp add: filter_empty_conv)
  have "AddWord w s =
      Returned (s\<lparr>db := Some (rows @ [?new]), stderr := stderr s @ [LogAdd w]\<rparr>)"
    using assms by (rule AddWord_absent)
  moreover have "filter (\<lambda>r. Word r = w) (rows @ [?new]) = [?new]"
    using none by simp
  moreover have "fst (CountWord (Some (rows @ [?new])) w) = 1"
    using none by (simp add: CountWord_def)
  moreover have "summary_line ?new = WordLine w 0 0 []"
    by (simp add: summary_line_def Valid_def Int64_def String_def)
  ultimately show ?thesis by (intro exI [of _ ?new]) simp
qed

theorem AddWord_creates_record_witness:
  "AddWord ''x'' \<lparr>db = Some [], stdout = [], stderr = [], responses = []\<rparr> =
     Returned \<lparr>db = Some [\<lparr>Word = ''x'', ZhTrans = None, AddedCount = Some 0,
                            LookupCount = Some 0\<rparr>],
               stdout = [], stderr = [LogAdd ''x''], responses = []\<rparr>"
  using AddWord_creates_record
    [of "\<lparr>db = Some [], stdout = [], stderr = [], responses = []\<rparr>" "[]" "''x''"]
  by auto

text \<open>
  Claim C3. When the table already holds a record for the word, \<^verbatim>\<open>AddWord\<close> leaves
  the number and the order of the records as they are, leaves every record of another
  word unchanged, and in the record of the word itself keeps word, translation and
  lookup count and turns an added count \<open>n\<close> into \<open>n + 1\<close>. (The counters of the data
  model are integers; a NULL added count, which the program never writes, stays NULL.)
\<close>

theorem AddWord_increments_record:
  assumes "db s = Some rows" and "\<exists>r \<in> set rows. Word r = w"
  shows "\<exists>rows'. AddWord w s =
           Returned (s\<lparr>db := Some rows', stderr := stderr s @ [LogAddedCount w]\<rparr>)
         \<and> length rows' = length rows
         \<and> (\<forall>i < length rows.
              (Word (rows ! i) \<noteq> w \<longrightarrow> rows' ! i = rows ! i)
            \<and> (Word (rows ! i) = w \<longrightarrow>
                 Word (rows' ! i) = w
               \<and> ZhTrans (rows' ! i) = ZhTrans (rows ! i)
               \<and> LookupCount (rows' ! i) = LookupCount (rows ! i)
               \<and> (\<forall>n. AddedCount (rows ! i) = Some n \<longrightarrow>
                       AddedCount (rows' ! i) = Some (n + 1))))"
proof -
  let ?rows' = "map (\<lambda>r. if Word r = w
                           then r\<lparr>AddedCount := sql_plus1 (AddedCount r)\<rparr> else r) rows"
  have "AddWord w s =
      Returned (s\<lparr>db := Some ?rows', stderr := stderr s @ [LogAddedCount w]\<rparr>)"
    using assms by (rule AddWord_present)
  moreover have "length ?rows' = length rows" by simp
  moreover have "\<forall>i < length rows.
              (Word (rows ! i) \<noteq> w \<longrightarrow> ?rows' ! i = rows ! i)
            \<and> (Word (rows ! i) = w \<longrightarrow>
                 Word (?rows' ! i) = w
               \<and> ZhTrans (?rows' ! i) = ZhTrans (rows ! i)
               \<and> LookupCount (?rows' ! i) = LookupCount (rows ! i)
               \<and> (\<forall>n. AddedCount (rows ! i) = Some n \<longrightarrow>
                       AddedCount (?rows' ! i) = Some (n + 1)))"
    by (simp add: sql_plus1_def)
  ultimately show ?thesis by (intro exI [of _ ?rows']) blast
qed

theorem AddWord_increments_record_witness:
  "db (final (AddWord ''x''
     \<lparr>db = Some [\<lparr>Word = ''x'', ZhTrans = Some ''t'', AddedCount = Some 4, LookupCount = Some 0\<rparr>,
                 \<lparr>Word = ''y'', ZhTrans = None, AddedCount = Some 2, LookupCount = Some 0\<rparr>],
      stdout = [], stderr = [], responses = []\<rparr>)) =
   Some [\<lparr>Word = ''x'', ZhTrans = Some ''t'', AddedCount = Some 5, LookupCount = Some 0\<rparr>,
         \<lparr>Word = ''y'', ZhTrans = None, AddedCount = Some 2, LookupCount = Some 0\<rparr>]"
  using AddWord_increments_record
    [of "\<lparr>db = Some [\<lparr>Word = ''x'', ZhTrans = Some ''t'', AddedCount = Some 4, LookupCount = Some 0\<rparr>,
                 \<lparr>Word = ''y'', ZhTrans = None, AddedCount = Some 2, LookupCount = Some 0\<rparr>],
      stdout = [], stderr = [], responses = []\<rparr>"
        "[\<lparr>Word = ''x'', ZhTrans = Some ''t'', AddedCount = Some 4, LookupCount = Some 0\<rparr>,
                 \<lparr>Word = ''y'', ZhTrans = None, AddedCount = Some 2, LookupCount = Some 0\<rparr>]" "''x''"]
  by (simp add: AddWord_def CountWord_def AddWordCount_def sql_plus1_def)

subsection \<open>Deleting a word\<close>

lemma find_filter:
  "find P (filter Q xs) = find (\<lambda>x. Q x \<and> P x) xs"
  by (induction xs) simp_all

lemma DelWord_table:
  "db s = Some rows \<Longrightarrow>
   DelWord w s = Returned (s\<lparr>db := Some (filter (\<lambda>r. Word r \<noteq> w) rows),
                            stderr := stderr s @ [LogDel w]\<rparr>)"
  by (simp add: DelWord_def DeleteWord_def)

lemma DelWord_no_table:
  "db s = None \<Longrightarrow>
   DelWord w s = Fatal (s\<lparr>db := None, stderr := stderr s @ [LogFatal NoSuchTable]\<rparr>)"
  by (simp add: DelWord_def DeleteWord_def)

lemma filter_absent: "\<forall>r \<in> set rows. Word r \<noteq> w \<Longrightarrow> filter (\<lambda>r. Word r \<noteq> w) rows = rows"
  by (simp add: filter_id_conv)

lemma db_DelWord_twice:
  "db (final (DelWord w (final (DelWord w s)))) = db (final (DelWord w s))"
proof (cases "db s")
  case None
  then show ?thesis by (simp add: DelWord_no_table)
next
  case (Some rows)
  then show ?thesis by (simp add: DelWord_table)
qed

text \<open>
  Claim C6. On an existing table \<^verbatim>\<open>DelWord\<close> returns without error, whether or not
  the word has a record; afterwards no record of the word is left and the records of
  the other words are as before. Deleting a word that has no record leaves the store
  unchanged, and with it what the summary prints. Deleting is idempotent: the store
  after two deletions is the store after one.
\<close>

theorem DelWord_spec:
  "(db s = Some rows \<longrightarrow>
      DelWord w s = Returned (s\<lparr>db := Some (filter (\<lambda>r. Word r \<noteq> w) rows),
                               stderr := stderr s @ [LogDel w]\<rparr>)
    \<and> GetWord (db (final (DelWord w s))) w = Inl ErrNoRows
    \<and> (\<forall>w'. w' \<noteq> w \<longrightarrow> GetWord (db (final (DelWord w s))) w' = GetWord (db s) w')
    \<and> ((\<forall>r \<in> set rows. Word r \<noteq> w) \<longrightarrow>
          db (final (DelWord w s)) = db s
        \<and> stdout (ShowSummary (final (DelWord w s))) = stdout (ShowSummary s)))
   \<and> db (final (DelWord w (final (DelWord w s)))) = db (final (DelWord w s))"
proof (intro conjI impI)
  assume tbl: "db s = Some rows"
  show del: "DelWord w s = Returned (s\<lparr>db := Some (filter (\<lambda>r. Word r \<noteq> w) rows),
                               stderr := stderr s @ [LogDel w]\<rparr>)"
    using tbl by (rule DelWord_table)
  have "find (\<lambda>r. Word r \<noteq> w \<and> Word r = w) rows = None"
    by (simp add: find_None_iff)
  then show "GetWord (db (final (DelWord w s))) w = Inl ErrNoRows"
    by (simp add: del GetWord_def find_filter)
  show "\<forall>w'. w' \<noteq> w \<longrightarrow> GetWord (db (final (DelWord w s))) w' = GetWord (db s) w'"
  proof (intro allI impI)
    fix w' :: string
    assume "w' \<noteq> w"
    then have "find (\<lambda>r. Word r \<noteq> w \<and> Word r = w') rows = find (\<lambda>r. Word r = w') rows"
      by (intro find_cong) auto
    then show "GetWord (db (final (DelWord w s))) w' = GetWord (db s) w'"
      by (simp add: del tbl GetWord_def find_filter)
  qed
  assume absent: "\<forall>r \<in> set rows. Word r \<noteq> w"
  show "db (final (DelWord w s)) = db s"
    using absent by (simp add: del tbl filter_absent)
  show "stdout (ShowSummary (final (DelWord w s))) = stdout (ShowSummary s)"
    using absent by (simp add: del tbl filter_absent ShowSummary_def Listword_def)
next
  show "db (final (DelWord w (final (DelWord w s)))) = db (final (DelWord w s))"
    by (rule db_DelWord_twice)
qed

theorem DelWord_spec_witness:
  "DelWord ''y''
     \<lparr>db = Some [\<lparr>Word = ''x'', ZhTrans = None, AddedCount = Some 1, LookupCount = Some 0\<rparr>,
                 \<lparr>Word = ''y'', ZhTrans = None, AddedCount = Some 0, LookupCount = Some 0\<rparr>],
      stdout = [], stderr = [], responses = []\<rparr> =
   Returned
     \<lparr>db = Some [\<lparr>Word = ''x'', ZhTrans = None, AddedCount = Some 1, LookupCount = Some 0\<rparr>],
      stdout = [], stderr = [LogDel ''y''], responses = []\<rparr>
   \<and> db (final (DelWord ''z''
     \<lparr>db = Some [\<lparr>Word = ''x'', ZhTrans = None, AddedCount = Some 1, LookupCount = Some 0\<rparr>],
      stdout = [], stderr = [], responses = []\<rparr>)) =
     Some [\<lparr>Word = ''x'', ZhTrans = None, AddedCount = Some 1, LookupCount = Some 0\<rparr>]"
  using DelWord_spec
    [of "\<lparr>db = Some [\<lparr>Word = ''x'', ZhTrans = None, AddedCount = Some 1, LookupCount = Some 0\<rparr>,
                 \<lparr>Word = ''y'', ZhTrans = None, AddedCount = Some 0, LookupCount = Some 0\<rparr>],
      stdout = [], stderr = [], responses = []\<rparr>"
        "[\<lparr>Word = ''x'', ZhTrans = None, AddedCount = Some 1, LookupCount = Some 0\<rparr>,
                 \<lparr>Word = ''y'', ZhTrans = None, AddedCount = Some 0, LookupCount = Some 0\<rparr>]"
        "''y''"]
    DelWord_spec
    [of "\<lparr>db = Some [\<lparr>Word = ''x'', ZhTrans = None, AddedCount = Some 1, LookupCount = Some 0\<rparr>],
      stdout = [], stderr = [], responses = []\<rparr>"
        "[\<lparr>Word = ''x'', ZhTrans = None, AddedCount = Some 1, LookupCount = Some 0\<rparr>]"
        "''z''"]
  by simp

subsection \<open>The redirect of the web server\<close>

lemma TrimPrefix_append: "TrimPrefix (p @ rest) p = rest"
  by (simp add: TrimPrefix_def HasPrefix_def)

lemma TrimSuffix_slash_empty: "TrimSuffix rest ''/'' = [] \<longleftrightarrow> rest = [] \<or> rest = ''/''"
proof (cases rest rule: rev_cases)
  case Nil
  then show ?thesis by (simp add: TrimSuffix_def HasSuffix_def)
next
  case (snoc ys y)
  then show ?thesis by (auto simp: TrimSuffix_def HasSuffix_def)
qed

text \<open>
  Claim C9. For every request path the handler of \<^verbatim>\<open>/word/\<close> answers
  \<^verbatim>\<open>404 word not found\<close> exactly when the path without the prefix \<^verbatim>\<open>/word/\<close> and
  without one trailing slash is empty (for a path \<^verbatim>\<open>/word/rest\<close>: when \<open>rest\<close> is
  empty or a single slash), and otherwise redirects with status 301 to a URL that
  contains that remainder, the requested word. The response is the call of
  \<^verbatim>\<open>http.Error\<close> or \<^verbatim>\<open>http.Redirect\<close> with its arguments. \<^verbatim>\<open>/word/\<close> gives 404
  and \<^verbatim>\<open>/word/cat\<close> a redirect to the dictionary URL ending in \<^verbatim>\<open>cat\<close>.
\<close>

theorem word_handler_spec:
  "(word_handler path = Error ''word not found'' 404
      \<longleftrightarrow> TrimSuffix (TrimPrefix path ''/word/'') ''/'' = [])
   \<and> (TrimSuffix (TrimPrefix path ''/word/'') ''/'' \<noteq> [] \<longrightarrow>
        (\<exists>url. word_handler path = Redirect url 301
           \<and> (\<exists>before after.
                url = before @ TrimSuffix (TrimPrefix path ''/word/'') ''/'' @ after)))
   \<and> (word_handler (''/word/'' @ rest) = Error ''word not found'' 404
        \<longleftrightarrow> rest = [] \<or> rest = ''/'')
   \<and> word_handler ''/word/'' = Error ''word not found'' 404
   \<and> word_handler ''/word/cat'' = Redirect (dictionary_url @ ''cat'') 301"
proof (intro conjI impI)
  show "word_handler path = Error ''word not found'' 404
      \<longleftrightarrow> TrimSuffix (TrimPrefix path ''/word/'') ''/'' = []"
    by (simp add: word_handler_def Let_def)
  show "word_handler (''/word/'' @ rest) = Error ''word not found'' 404
        \<longleftrightarrow> rest = [] \<or> rest = ''/''"
  proof -
    have tp: "TrimPrefix (''/word/'' @ rest) ''/word/'' = rest"
      by (rule TrimPrefix_append)
    have "word_handler (''/word/'' @ rest) =
        (if TrimSuffix rest ''/'' = [] then Error ''word not found'' 404
         else Redirect (dictionary_url @ TrimSuffix rest ''/'') 301)"
      unfolding word_handler_def Let_def tp by (rule refl)
    then show ?thesis
      using TrimSuffix_slash_empty [of rest] by simp
  qed
  show "word_handler ''/word/'' = Error ''word not found'' 404"
    by (simp add: word_handler_def TrimPrefix_def HasPrefix_def TrimSuffix_def HasSuffix_def)
  show "word_handler ''/word/cat'' = Redirect (dictionary_url @ ''cat'') 301"
    by (simp add: word_handler_def TrimPrefix_def HasPrefix_def TrimSuffix_def HasSuffix_def)
next
  let ?word = "TrimSuffix (TrimPrefix path ''/word/'') ''/''"
  assume "?word \<noteq> []"
  then have "word_handler path = Redirect (dictionary_url @ ?word) 301"
    by (simp add: word_handler_def Let_def)
  moreover have "dictionary_url @ ?word = dictionary_url @ ?word @ []" by simp
  ultimately show "\<exists>url. word_handler path = Redirect url 301
           \<and> (\<exists>before after. url = before @ ?word @ after)"
    by blast
qed

theorem word_handler_spec_witness:
  "word_handler ''/word/dog/'' =
     Redirect ''https://dictionary.cambridge.org/dictionary/english-chinese-simplified/dog'' 301
   \<and> word_handler ''/word//'' = Error ''word not found'' 404"
  using word_handler_spec [of "''/word/dog/''" "''/''"]
  by (simp add: word_handler_def dictionary_url_def TrimPrefix_def HasPrefix_def
      TrimSuffix_def HasSuffix_def)

subsection \<open>The delete action and the Word Filter\<close>

lemma perform_delete:
  "arg \<noteq> [] \<Longrightarrow> perform U P (OpDelete arg) s = DelWord arg s"
  by (simp add: perform_def main_def no_flags_def)

lemma db_DelWord_absent:
  assumes "\<forall>rows. db s = Some rows \<longrightarrow> (\<forall>r \<in> set rows. Word r \<noteq> w)"
  shows "db (final (DelWord w s)) = db s"
proof (cases "db s")
  case None
  then show ?thesis by (simp add: DelWord_def DeleteWord_def)
next
  case (Some rows)
  with assms have "filter (\<lambda>r. Word r \<noteq> w) rows = rows"
    by (simp add: filter_id_conv)
  with Some show ?thesis by (simp add: DelWord_def DeleteWord_def)
qed

text \<open>
  Claim C10. The delete action hands its non-empty command-line argument to
  \<^verbatim>\<open>DelWord\<close> as it is, without the Word Filter. So when every word of the store
  matches \<^verbatim>\<open>^[a-z]+$\<close> and the argument holds a byte outside \<open>a\<close>-\<open>z\<close>, the run
  leaves the store unchanged.
\<close>

theorem delete_takes_raw_argument:
  "(arg \<noteq> [] \<longrightarrow> perform U P (OpDelete arg) s = DelWord arg s)
   \<and> ((\<forall>rows. db s = Some rows \<longrightarrow> (\<forall>r \<in> set rows. isValidWord (Word r)))
        \<and> (\<exists>c \<in> set arg. \<not> lower_az c)
      \<longrightarrow> db (final (perform U P (OpDelete arg) s)) = db s)"
proof (intro conjI impI)
  assume "arg \<noteq> []"
  then show "perform U P (OpDelete arg) s = DelWord arg s"
    by (rule perform_delete)
next
  assume a: "(\<forall>rows. db s = Some rows \<longrightarrow> (\<forall>r \<in> set rows. isValidWord (Word r)))
        \<and> (\<exists>c \<in> set arg. \<not> lower_az c)"
  then have invalid: "\<not> isValidWord arg" and nonempty: "arg \<noteq> []"
    by (auto simp: isValidWord_def list_all_iff)
  from a invalid have "\<forall>rows. db s = Some rows \<longrightarrow> (\<forall>r \<in> set rows. Word r \<noteq> arg)"
    by auto
  then have "db (final (DelWord arg s)) = db s"
    by (rule db_DelWord_absent)
  with nonempty show "db (final (perform U P (OpDelete arg) s)) = db s"
    by (simp add: perform_delete)
qed

theorem delete_takes_raw_argument_witness:
  "perform \<lparr>TrimFunc_IsSpace = id, Map_ToLower = id\<rparr> (Inr words_html) (OpDelete '' Cat'')
     \<lparr>db = Some [\<lparr>Word = ''cat'', ZhTrans = None, AddedCount = Some 0, LookupCount = Some 0\<rparr>],
      stdout = [], stderr = [], responses = []\<rparr> =
   Returned
     \<lparr>db = Some [\<lparr>Word = ''cat'', ZhTrans = None, AddedCount = Some 0, LookupCount = Some 0\<rparr>],
      stdout = [], stderr = [LogDel '' Cat''], responses = []\<rparr>"
  using delete_takes_raw_argument
    [of "'' Cat''" "\<lparr>TrimFunc_IsSpace = id, Map_ToLower = id\<rparr>" "Inr words_html"
        "\<lparr>db = Some [\<lparr>Word = ''cat'', ZhTrans = None, AddedCount = Some 0, LookupCount = Some 0\<rparr>],
      stdout = [], stderr = [], responses = []\<rparr>"]
  by (simp add: DelWord_def DeleteWord_def)

subsection \<open>The Reporting View\<close>

lemma summary_line_fields:
  "printed_fields (summary_line word) =
     [(Word word, Int64 (AddedCount word), Int64 (LookupCount word), String (ZhTrans word))]"
  by (simp add: summary_line_def Valid_def Int64_def String_def)

lemma words_html_row_fields:
  "row_fields (words_html_row word) =
     [(Word word, Int64 (AddedCount word), Int64 (LookupCount word), String (ZhTrans word))]"
  by (simp add: words_html_row_def)

lemma stdout_ShowSummary:
  "stdout (ShowSummary s) =
     stdout s @ HeaderLine ''Word'' ''Added Count'' ''Lookup Count'' ''Translation''
       # map summary_line (fst (Listword (db s)))"
  by (simp add: ShowSummary_def)

lemma root_handler_words_html:
  "root_handler words_html d = Page (map words_html_row (fst (Listword d)))"
  by (simp add: root_handler_def words_html_def)

lemma GetAllWords0_frame:
  "stdout (snd (GetAllWords0 s)) = stdout s \<and> responses (snd (GetAllWords0 s)) = responses s
   \<and> db (snd (GetAllWords0 s)) = db s"
  by (simp add: GetAllWords0_def split: option.split prod.split)

lemma stdout_ShowSummary0:
  "stdout (ShowSummary0 s) =
     stdout s @ HeaderLine ''Word'' ''Added Count'' ''Lookup Count'' ''Translation''
       # map (\<lambda>word. WordLine (Word0 word) (AddedCount0 word) (LookupCount0 word)
                          (ZhTrans0 word)) (fst (GetAllWords0 s))"
  using GetAllWords0_frame [of s]
  by (simp add: ShowSummary0_def case_prod_beta)

lemma responses_root_handler0:
  "responses (root_handler0 s) = responses s @ [Page (template0 (fst (GetAllWords0 s)))]"
  using GetAllWords0_frame [of s]
  by (simp add: root_handler0_def case_prod_beta)

lemma template0_fields:
  "concat (map row_fields (template0 words)) =
     map (\<lambda>word. (Word0 word, AddedCount0 word, LookupCount0 word, ZhTrans0 word)) words"
  by (induction words) (simp_all add: template0_def)

text \<open>
  Claim C8. The plaintext renderer and the page of the web server read the records with
  the same query, \<^verbatim>\<open>Listword\<close> with its error discarded, and show the same four
  values of each record: word, added count, lookup count and translation, the empty
  string standing for an absent translation. The page is that of the template modelled
  from the spec. In the earlier revision both renderers take their records from
  \<^verbatim>\<open>GetAllWords\<close> and show the same four fields of each.
\<close>

theorem renderers_share_read_and_fields:
  "stdout (ShowSummary s) =
     stdout s @ HeaderLine ''Word'' ''Added Count'' ''Lookup Count'' ''Translation''
       # map summary_line (fst (Listword (db s)))
   \<and> root_handler words_html (db s) = Page (map words_html_row (fst (Listword (db s))))
   \<and> (\<forall>word. printed_fields (summary_line word) = row_fields (words_html_row word)
         \<and> row_fields (words_html_row word) =
             [(Word word, Int64 (AddedCount word), Int64 (LookupCount word),
               String (ZhTrans word))])
   \<and> concat (map printed_fields (drop (length (stdout s)) (stdout (ShowSummary s)))) =
       concat (map row_fields (map words_html_row (fst (Listword (db s)))))
   \<and> stdout (ShowSummary0 s) =
       stdout s @ HeaderLine ''Word'' ''Added Count'' ''Lookup Count'' ''Translation''
         # map (\<lambda>word. WordLine (Word0 word) (AddedCount0 word) (LookupCount0 word)
                            (ZhTrans0 word)) (fst (GetAllWords0 s))
   \<and> responses (root_handler0 s) = responses s @ [Page (template0 (fst (GetAllWords0 s)))]
   \<and> concat (map printed_fields (drop (length (stdout s)) (stdout (ShowSummary0 s)))) =
       concat (map row_fields (template0 (fst (GetAllWords0 s))))"
proof (intro conjI allI)
  show "stdout (ShowSummary s) =
     stdout s @ HeaderLine ''Word'' ''Added Count'' ''Lookup Count'' ''Translation''
       # map summary_line (fst (Listword (db s)))"
    by (rule stdout_ShowSummary)
  show "root_handler words_html (db s) = Page (map words_html_row (fst (Listword (db s))))"
    by (rule root_handler_words_html)
  show "printed_fields (summary_line word) = row_fields (words_html_row word)" for word
    by (simp only: summary_line_fields words_html_row_fields)
  show "row_fields (words_html_row word) =
             [(Word word, Int64 (AddedCount word), Int64 (LookupCount word),
               String (ZhTrans word))]" for word
    by (rule words_html_row_fields)
  show "concat (map printed_fields (drop (length (stdout s)) (stdout (ShowSummary s)))) =
       concat (map row_fields (map words_html_row (fst (Listword (db s)))))"
    by (simp add: stdout_ShowSummary summary_line_fields words_html_row_fields comp_def)
  show "stdout (ShowSummary0 s) =
       stdout s @ HeaderLine ''Word'' ''Added Count'' ''Lookup Count'' ''Translation''
         # map (\<lambda>word. WordLine (Word0 word) (AddedCount0 word) (LookupCount0 word)
                            (ZhTrans0 word)) (fst (GetAllWords0 s))"
    by (rule stdout_ShowSummary0)
  show "responses (root_handler0 s) = responses s @ [Page (template0 (fst (GetAllWords0 s)))]"
    by (rule responses_root_handler0)
  show "concat (map printed_fields (drop (length (stdout s)) (stdout (ShowSummary0 s)))) =
       concat (map row_fields (template0 (fst (GetAllWords0 s))))"
    by (simp add: stdout_ShowSummary0 template0_fields comp_def)
qed

theorem renderers_share_read_and_fields_witness:
  "stdout (ShowSummary
     \<lparr>db = Some [\<lparr>Word = ''cat'', ZhTrans = None, AddedCount = Some 2, LookupCount = Some 0\<rparr>],
      stdout = [], stderr = [], responses = []\<rparr>) =
     [HeaderLine ''Word'' ''Added Count'' ''Lookup Count'' ''Translation'',
      WordLine ''cat'' 2 0 []]
   \<and> root_handler words_html
       (Some [\<lparr>Word = ''cat'', ZhTrans = None, AddedCount = Some 2, LookupCount = Some 0\<rparr>]) =
     Page [[Link ''/word/cat'' ''cat'', Number 2, Number 0, Text []]]
   \<and> stdout (ShowSummary0
     \<lparr>db = Some [\<lparr>Word = ''cat'', ZhTrans = Some ''mao'', AddedCount = Some 2,
                   LookupCount = Some 0\<rparr>,
                 \<lparr>Word = ''dog'', ZhTrans = None, AddedCount = Some 0, LookupCount = Some 0\<rparr>],
      stdout = [], stderr = [], responses = []\<rparr>) =
     [HeaderLine ''Word'' ''Added Count'' ''Lookup Count'' ''Translation'',
      WordLine ''cat'' 2 0 ''mao'']
   \<and> responses (root_handler0
     \<lparr>db = Some [\<lparr>Word = ''cat'', ZhTrans = Some ''mao'', AddedCount = Some 2,
                   LookupCount = Some 0\<rparr>,
                 \<lparr>Word = ''dog'', ZhTrans = None, AddedCount = Some 0, LookupCount = Some 0\<rparr>],
      stdout = [], stderr = [], responses = []\<rparr>) =
     [Page [[Text ''Word'', Text ''Added Count'', Text ''Lookup Count'', Text ''Translation''],
            [Link ''/word/cat'' ''cat'', Number 2, Number 0, Text ''mao'']]]"
  using renderers_share_read_and_fields
    [of "\<lparr>db = Some [\<lparr>Word = ''cat'', ZhTrans = None, AddedCount = Some 2, LookupCount = Some 0\<rparr>],
      stdout = [], stderr = [], responses = []\<rparr>"]
    renderers_share_read_and_fields
    [of "\<lparr>db = Some [\<lparr>Word = ''cat'', ZhTrans = Some ''mao'', AddedCount = Some 2,
                   LookupCount = Some 0\<rparr>,
                 \<lparr>Word = ''dog'', ZhTrans = None, AddedCount = Some 0, LookupCount = Some 0\<rparr>],
      stdout = [], stderr = [], responses = []\<rparr>"]
  by (simp add: Listword_def summary_line_def words_html_row_def Valid_def Int64_def String_def
      GetAllWords0_def Scan0_def template0_def)

subsection \<open>Store errors\<close>

lemma perform_add:
  "a \<noteq> [] \<Longrightarrow> perform U P (OpAdd a) s = add_words (filterWords U a) s"
  by (simp add: perform_def main_def no_flags_def)

lemma perform_add_empty: "perform U P (OpAdd []) s = Returned s"
  by (simp add: perform_def main_def no_flags_def)

lemma perform_show: "perform U P OpShow s = Returned (ShowSummary s)"
  by (simp add: perform_def main_def no_flags_def)

lemma perform_init: "perform U P OpInit s = Returned (Init s)"
  by (simp add: perform_def main_def no_flags_def)

text \<open>
  Claim C7, as stated, fails. On a database file without the table the query
  \<^verbatim>\<open>Listword\<close> fails, yet the show action discards the error: it prints the header,
  logs nothing and returns, so the process ends normally.
\<close>

theorem query_error_not_fatal_counterexample:
  "snd (Listword None) = Some NoSuchTable
   \<and> perform \<lparr>TrimFunc_IsSpace = id, Map_ToLower = id\<rparr> (Inr words_html) OpShow
       \<lparr>db = None, stdout = [], stderr = [], responses = []\<rparr> =
     Returned \<lparr>db = None,
       stdout = [HeaderLine ''Word'' ''Added Count'' ''Lookup Count'' ''Translation''],
       stderr = [], responses = []\<rparr>
   \<and> \<not> is_Fatal (perform \<lparr>TrimFunc_IsSpace = id, Map_ToLower = id\<rparr> (Inr words_html) OpShow
       \<lparr>db = None, stdout = [], stderr = [], responses = []\<rparr>)"
  by (simp add: perform_show ShowSummary_def Listword_def)

lemma AddWord_driver_none: "AddWord_driver (None, None) w s = AddWord w s"
  by (simp add: AddWord_driver_def AddWord_def CountWord_driver_def write_driver_def)

lemma DelWord_driver_none: "DelWord_driver None w s = DelWord w s"
  by (simp add: DelWord_driver_def DelWord_def write_driver_def)

lemma add_words_driver_none: "add_words_driver [] ws s = add_words ws s"
  by (induction ws arbitrary: s) (simp_all add: AddWord_driver_none split: outcome.split)

lemma AddWord_driver_create_fails:
  assumes "fst (CountWord_driver eq (db s) w) = 0"
    and "fst (write_driver ew (db s) (CreateWord (db s) w None)) = Some err"
  shows "AddWord_driver (eq, ew) w s =
     Fatal (s\<lparr>db := snd (write_driver ew (db s) (CreateWord (db s) w None)),
              stderr := stderr s @ [LogFatal err]\<rparr>)"
  using assms
  by (cases "write_driver ew (db s) (CreateWord (db s) w None)") (simp add: AddWord_driver_def)

lemma AddWord_driver_update_fails:
  assumes "fst (CountWord_driver eq (db s) w) \<noteq> 0"
    and "fst (write_driver ew (db s) (AddWordCount (db s) w)) = Some err"
  shows "AddWord_driver (eq, ew) w s =
     Fatal (s\<lparr>db := snd (write_driver ew (db s) (AddWordCount (db s) w)),
              stderr := stderr s @ [LogFatal err]\<rparr>)"
  using assms
  by (cases "write_driver ew (db s) (AddWordCount (db s) w)") (simp add: AddWord_driver_def)

lemma AddWord_driver_fatal_iff:
  "is_Fatal (AddWord_driver (eq, ew) w s) \<longleftrightarrow>
     (if fst (CountWord_driver eq (db s) w) = 0
      then fst (write_driver ew (db s) (CreateWord (db s) w None)) \<noteq> None
      else fst (write_driver ew (db s) (AddWordCount (db s) w)) \<noteq> None)"
  by (simp add: AddWord_driver_def Let_def split: prod.split option.split)

lemma failed_CreateWord_db:
  "fst (write_driver ew d (CreateWord d w zh)) \<noteq> None \<Longrightarrow>
     snd (write_driver ew d (CreateWord d w zh)) = d"
  by (cases ew; cases d) (simp_all add: write_driver_def CreateWord_def split: if_splits)

lemma failed_AddWordCount_db:
  "fst (write_driver ew d (AddWordCount d w)) \<noteq> None \<Longrightarrow>
     snd (write_driver ew d (AddWordCount d w)) = d"
  by (cases ew; cases d) (simp_all add: write_driver_def AddWordCount_def)

lemma failed_DeleteWord_db:
  "fst (write_driver ew d (DeleteWord d w)) \<noteq> None \<Longrightarrow>
     snd (write_driver ew d (DeleteWord d w)) = d"
  by (cases ew; cases d) (simp_all add: write_driver_def DeleteWord_def)

lemma AddWord_driver_fatal_db:
  assumes "is_Fatal (AddWord_driver e w s)"
  shows "db (final (AddWord_driver e w s)) = db s"
proof -
  obtain eq ew where e: "e = (eq, ew)" by (cases e)
  show ?thesis
  proof (cases "fst (CountWord_driver eq (db s) w) = 0")
    case True
    with assms e obtain err
      where err: "fst (write_driver ew (db s) (CreateWord (db s) w None)) = Some err"
      by (auto simp: AddWord_driver_fatal_iff)
    then have "snd (write_driver ew (db s) (CreateWord (db s) w None)) = db s"
      by (simp add: failed_CreateWord_db failed_AddWordCount_db failed_DeleteWord_db)
    with AddWord_driver_create_fails [OF True err] e show ?thesis by simp
  next
    case False
    with assms e obtain err
      where err: "fst (write_driver ew (db s) (AddWordCount (db s) w)) = Some err"
      by (auto simp: AddWord_driver_fatal_iff)
    then have "snd (write_driver ew (db s) (AddWordCount (db s) w)) = db s"
      by (simp add: failed_CreateWord_db failed_AddWordCount_db failed_DeleteWord_db)
    with AddWord_driver_update_fails [OF False err] e show ?thesis by simp
  qed
qed

lemma AddWord_driver_fatal_logged:
  assumes "is_Fatal (AddWord_driver e w s)"
  shows "\<exists>err. AddWord_driver e w s = Fatal (s\<lparr>stderr := stderr s @ [LogFatal err]\<rparr>)"
proof -
  obtain eq ew where e: "e = (eq, ew)" by (cases e)
  show ?thesis
  proof (cases "fst (CountWord_driver eq (db s) w) = 0")
    case True
    with assms e obtain err
      where err: "fst (write_driver ew (db s) (CreateWord (db s) w None)) = Some err"
      by (auto simp: AddWord_driver_fatal_iff)
    then have "snd (write_driver ew (db s) (CreateWord (db s) w None)) = db s"
      by (simp add: failed_CreateWord_db failed_AddWordCount_db failed_DeleteWord_db)
    with AddWord_driver_create_fails [OF True err] e show ?thesis by auto
  next
    case False
    with assms e obtain err
      where err: "fst (write_driver ew (db s) (AddWordCount (db s) w)) = Some err"
      by (auto simp: AddWord_driver_fatal_iff)
    then have "snd (write_driver ew (db s) (AddWordCount (db s) w)) = db s"
      by (simp add: failed_CreateWord_db failed_AddWordCount_db failed_DeleteWord_db)
    with AddWord_driver_update_fails [OF False err] e show ?thesis by auto
  qed
qed

lemma DelWord_driver_fails:
  assumes "fst (write_driver e (db s) (DeleteWord (db s) w)) = Some err"
  shows "DelWord_driver e w s = Fatal (s\<lparr>stderr := stderr s @ [LogFatal err]\<rparr>)"
proof -
  from assms have "snd (write_driver e (db s) (DeleteWord (db s) w)) = db s"
    by (simp add: failed_CreateWord_db failed_AddWordCount_db failed_DeleteWord_db)
  with assms show ?thesis
    by (cases "write_driver e (db s) (DeleteWord (db s) w)") (simp add: DelWord_driver_def)
qed

lemma DelWord_driver_fatal_iff:
  "is_Fatal (DelWord_driver e w s) \<longleftrightarrow>
     fst (write_driver e (db s) (DeleteWord (db s) w)) \<noteq> None"
  by (simp add: DelWord_driver_def split: prod.split option.split)

lemma add_words_driver_Nil: "add_words_driver es [] s = Returned s"
  by (cases es) simp_all

lemma add_words_driver_abort:
  "length eb = length before \<Longrightarrow> add_words_driver eb before s = Returned s1 \<Longrightarrow>
   is_Fatal (AddWord_driver e w s1) \<Longrightarrow>
   add_words_driver (eb @ e # ea) (before @ w # after) s = AddWord_driver e w s1"
proof (induction eb before arbitrary: s rule: list_induct2)
  case Nil
  then show ?case by (cases "AddWord_driver e w s1") simp_all
next
  case (Cons x xs y ys)
  then show ?case by (cases "AddWord_driver x y s") simp_all
qed

lemma AddWord_driver_fatal_error:
  assumes "(if fst (CountWord_driver eq (db s) w) = 0
            then fst (write_driver ew (db s) (CreateWord (db s) w None))
            else fst (write_driver ew (db s) (AddWordCount (db s) w))) = Some err"
  shows "AddWord_driver (eq, ew) w s = Fatal (s\<lparr>stderr := stderr s @ [LogFatal err]\<rparr>)"
proof (cases "fst (CountWord_driver eq (db s) w) = 0")
  case True
  with assms have err: "fst (write_driver ew (db s) (CreateWord (db s) w None)) = Some err"
    by simp
  then have "snd (write_driver ew (db s) (CreateWord (db s) w None)) = db s"
    by (simp add: failed_CreateWord_db)
  with AddWord_driver_create_fails [OF True err] show ?thesis by simp
next
  case False
  with assms have err: "fst (write_driver ew (db s) (AddWordCount (db s) w)) = Some err"
    by simp
  then have "snd (write_driver ew (db s) (AddWordCount (db s) w)) = db s"
    by (simp add: failed_AddWordCount_db)
  with AddWord_driver_update_fails [OF False err] show ?thesis by simp
qed

lemma perform_init_fails:
  assumes "fst (CreateTable (db s)) = Some err"
  shows "perform U P OpInit s = Returned (s\<lparr>stderr := stderr s @ [LogInitError err]\<rparr>)"
proof (cases "db s")
  case None
  with assms show ?thesis by (simp add: CreateTable_def)
next
  case (Some rows)
  with assms show ?thesis by (auto simp: perform_init Init_def CreateTable_def)
qed

text \<open>
  Claim C7, amended. A store error raised by a write ends the run with a logged message.
  \<^verbatim>\<open>AddWord\<close> is fatal exactly when the write it executes fails (\<^verbatim>\<open>CreateWord\<close>
  when the count is 0, \<^verbatim>\<open>AddWordCount\<close> otherwise) and \<^verbatim>\<open>DelWord\<close> exactly
  when \<^verbatim>\<open>DeleteWord\<close> fails, whether the table or the driver is the reason; the
  process then ends in \<^verbatim>\<open>log.Fatal\<close> with that error logged and the store as it was.
  In an add of several words, when the words before one have been added and its write
  fails, the run ends there with the store as those words left it: the words after it
  are not processed. These are the add and delete actions of \<^verbatim>\<open>main\<close>, which without
  a verdict of the driver are \<^verbatim>\<open>AddWord\<close>, \<^verbatim>\<open>DelWord\<close> and the loop as modelled
  before. An init whose \<^verbatim>\<open>CREATE TABLE\<close> fails logs the error and returns.
\<close>

theorem write_errors_are_fatal:
  "AddWord_driver (None, None) w s = AddWord w s
   \<and> DelWord_driver None w s = DelWord w s
   \<and> add_words_driver [] ws s = add_words ws s
   \<and> (is_Fatal (AddWord_driver (eq, ew) w s) \<longleftrightarrow>
        (if fst (CountWord_driver eq (db s) w) = 0
         then fst (write_driver ew (db s) (CreateWord (db s) w None))
         else fst (write_driver ew (db s) (AddWordCount (db s) w))) \<noteq> None)
   \<and> (\<forall>err. (if fst (CountWord_driver eq (db s) w) = 0
               then fst (write_driver ew (db s) (CreateWord (db s) w None))
               else fst (write_driver ew (db s) (AddWordCount (db s) w))) = Some err \<longrightarrow>
        AddWord_driver (eq, ew) w s = Fatal (s\<lparr>stderr := stderr s @ [LogFatal err]\<rparr>))
   \<and> (is_Fatal (DelWord_driver ed w s) \<longleftrightarrow>
        fst (write_driver ed (db s) (DeleteWord (db s) w)) \<noteq> None)
   \<and> (\<forall>err. fst (write_driver ed (db s) (DeleteWord (db s) w)) = Some err \<longrightarrow>
        DelWord_driver ed w s = Fatal (s\<lparr>stderr := stderr s @ [LogFatal err]\<rparr>))
   \<and> (\<forall>eb before s1 ea after.
        length eb = length before \<and> add_words_driver eb before s = Returned s1
        \<and> is_Fatal (AddWord_driver (eq, ew) w s1) \<longrightarrow>
        add_words_driver (eb @ (eq, ew) # ea) (before @ w # after) s =
          AddWord_driver (eq, ew) w s1
        \<and> db (final (AddWord_driver (eq, ew) w s1)) = db s1)
   \<and> (a \<noteq> [] \<longrightarrow> perform U P (OpAdd a) s = add_words (filterWords U a) s)
   \<and> (a \<noteq> [] \<longrightarrow> perform U P (OpDelete a) s = DelWord a s)
   \<and> (\<forall>err. fst (CreateTable (db s)) = Some err \<longrightarrow>
        perform U P OpInit s = Returned (s\<lparr>stderr := stderr s @ [LogInitError err]\<rparr>))"
proof (intro conjI allI impI)
  show "AddWord_driver (None, None) w s = AddWord w s"
    by (rule AddWord_driver_none)
  show "DelWord_driver None w s = DelWord w s"
    by (rule DelWord_driver_none)
  show "add_words_driver [] ws s = add_words ws s"
    by (rule add_words_driver_none)
  show "is_Fatal (AddWord_driver (eq, ew) w s) \<longleftrightarrow>
        (if fst (CountWord_driver eq (db s) w) = 0
         then fst (write_driver ew (db s) (CreateWord (db s) w None))
         else fst (write_driver ew (db s) (AddWordCount (db s) w))) \<noteq> None"
    by (simp add: AddWord_driver_fatal_iff)
  show "is_Fatal (DelWord_driver ed w s) \<longleftrightarrow>
        fst (write_driver ed (db s) (DeleteWord (db s) w)) \<noteq> None"
    by (rule DelWord_driver_fatal_iff)
next
  fix err
  assume "(if fst (CountWord_driver eq (db s) w) = 0
           then fst (write_driver ew (db s) (CreateWord (db s) w None))
           else fst (write_driver ew (db s) (AddWordCount (db s) w))) = Some err"
  then show "AddWord_driver (eq, ew) w s = Fatal (s\<lparr>stderr := stderr s @ [LogFatal err]\<rparr>)"
    by (rule AddWord_driver_fatal_error)
next
  fix err
  assume "fst (write_driver ed (db s) (DeleteWord (db s) w)) = Some err"
  then show "DelWord_driver ed w s = Fatal (s\<lparr>stderr := stderr s @ [LogFatal err]\<rparr>)"
    by (rule DelWord_driver_fails)
next
  fix eb before s1 ea after
  assume a: "length eb = length before \<and> add_words_driver eb before s = Returned s1
        \<and> is_Fatal (AddWord_driver (eq, ew) w s1)"
  then show "add_words_driver (eb @ (eq, ew) # ea) (before @ w # after) s =
          AddWord_driver (eq, ew) w s1"
    by (simp add: add_words_driver_abort)
  from a show "db (final (AddWord_driver (eq, ew) w s1)) = db s1"
    by (simp add: AddWord_driver_fatal_db)
next
  assume "a \<noteq> []"
  then show "perform U P (OpAdd a) s = add_words (filterWords U a) s"
    by (rule perform_add)
next
  assume "a \<noteq> []"
  then show "perform U P (OpDelete a) s = DelWord a s"
    by (rule perform_delete)
next
  fix err
  assume "fst (CreateTable (db s)) = Some err"
  then show "perform U P OpInit s = Returned (s\<lparr>stderr := stderr s @ [LogInitError err]\<rparr>)"
    by (rule perform_init_fails)
qed

theorem write_errors_are_fatal_witness:
  "add_words_driver [(None, None), (None, Some DiskFull)] [''a'', ''b'', ''c'']
     \<lparr>db = Some [], stdout = [], stderr = [], responses = []\<rparr> =
   Fatal \<lparr>db = Some [\<lparr>Word = ''a'', ZhTrans = None, AddedCount = Some 0,
                        LookupCount = Some 0\<rparr>],
          stdout = [], stderr = [LogAdd ''a'', LogFatal DiskFull], responses = []\<rparr>
   \<and> DelWord_driver None ''a'' \<lparr>db = None, stdout = [], stderr = [], responses = []\<rparr> =
     Fatal \<lparr>db = None, stdout = [], stderr = [LogFatal NoSuchTable], responses = []\<rparr>
   \<and> perform \<lparr>TrimFunc_IsSpace = id, Map_ToLower = id\<rparr> (Inr words_html) OpInit
       \<lparr>db = Some [], stdout = [], stderr = [], responses = []\<rparr> =
     Returned \<lparr>db = Some [], stdout = [], stderr = [LogInitError TableExists],
               responses = []\<rparr>"
proof -
  let ?s = "\<lparr>db = Some [], stdout = [], stderr = [], responses = []\<rparr>"
  let ?s1 = "\<lparr>db = Some [\<lparr>Word = ''a'', ZhTrans = None, AddedCount = Some 0,
                        LookupCount = Some 0\<rparr>],
          stdout = [], stderr = [LogAdd ''a''], responses = []\<rparr>"
  let ?n = "\<lparr>db = None, stdout = [], stderr = [], responses = []\<rparr>"
  let ?U = "\<lparr>TrimFunc_IsSpace = id, Map_ToLower = id\<rparr>"
  note inst = write_errors_are_fatal
    [of "''b''" ?s _ None "Some DiskFull" None _ ?U "Inr words_html"]
  have first: "add_words_driver [(None, None)] [''a''] ?s = Returned ?s1"
    by (simp add: AddWord_driver_def CountWord_driver_def write_driver_def CountWord_def
        CreateWord_def)
  have second: "AddWord_driver (None, Some DiskFull) ''b'' ?s1 =
      Fatal (?s1\<lparr>stderr := stderr ?s1 @ [LogFatal DiskFull]\<rparr>)"
    by (simp add: AddWord_driver_def CountWord_driver_def write_driver_def CountWord_def)
  from inst have "\<forall>eb before s1 ea after.
        length eb = length before \<and> add_words_driver eb before ?s = Returned s1
        \<and> is_Fatal (AddWord_driver (None, Some DiskFull) ''b'' s1) \<longrightarrow>
        add_words_driver (eb @ (None, Some DiskFull) # ea) (before @ ''b'' # after) ?s =
          AddWord_driver (None, Some DiskFull) ''b'' s1
        \<and> db (final (AddWord_driver (None, Some DiskFull) ''b'' s1)) = db s1"
    by blast
  from this [rule_format, of "[(None, None)]" "[''a'']" ?s1 "[]" "[''c'']"] first second
  have 1: "add_words_driver [(None, None), (None, Some DiskFull)] [''a'', ''b'', ''c''] ?s =
      Fatal (?s1\<lparr>stderr := stderr ?s1 @ [LogFatal DiskFull]\<rparr>)"
    by simp
  have 2: "DelWord_driver None ''a'' ?n =
      Fatal \<lparr>db = None, stdout = [], stderr = [LogFatal NoSuchTable], responses = []\<rparr>"
    using write_errors_are_fatal [of "''a''" ?n _ None None None _ ?U "Inr words_html"]
    by (simp add: write_driver_def DeleteWord_def DelWord_def)
  have 3: "perform ?U (Inr words_html) OpInit ?s =
      Returned \<lparr>db = Some [], stdout = [], stderr = [LogInitError TableExists],
               responses = []\<rparr>"
    using inst by (simp add: CreateTable_def)
  from 1 2 3 show ?thesis by simp
qed

subsection \<open>Repeated additions\<close>

















subsection \<open>The counters over sequences of runs\<close>

lemma GetWord_Inr_iff:
  "GetWord d w = Inr r \<longleftrightarrow> (\<exists>rows. d = Some rows \<and> find (\<lambda>r. Word r = w) rows = Some r)"
  by (cases d) (auto simp: GetWord_def split: option.splits)

lemma find_snoc:
  "find P (xs @ [y]) = (case find P xs of None \<Rightarrow> (if P y then Some y else None) | Some x \<Rightarrow> Some x)"
  by (induction xs) simp_all

lemma find_map_Word:
  assumes "\<And>r. Word (f r) = Word r"
  shows "find (\<lambda>r. Word r = w) (map f rows) = map_option f (find (\<lambda>r. Word r = w) rows)"
  by (induction rows) (simp_all add: assms)

lemma AddWord_keeps:
  assumes "GetWord (db s) w = Inr r"
  shows "\<exists>r'. GetWord (db (final (AddWord v s))) w = Inr r'
           \<and> Int64 (AddedCount r) \<le> Int64 (AddedCount r')
           \<and> LookupCount r' = LookupCount r"
proof -
  from assms obtain rows where tbl: "db s = Some rows"
    and found: "find (\<lambda>r. Word r = w) rows = Some r"
    by (auto simp: GetWord_Inr_iff)
  show ?thesis
  proof (cases "\<exists>x \<in> set rows. Word x = v")
    case False
    then have "\<forall>x \<in> set rows. Word x \<noteq> v" by simp
    from AddWord_absent [OF tbl this] found
    have "GetWord (db (final (AddWord v s))) w = Inr r"
      by (simp add: GetWord_def find_snoc)
    then show ?thesis by simp
  next
    case True
    let ?f = "\<lambda>x. if Word x = v then x\<lparr>AddedCount := sql_plus1 (AddedCount x)\<rparr> else x"
    have "find (\<lambda>r. Word r = w) (map ?f rows) = map_option ?f (find (\<lambda>r. Word r = w) rows)"
      by (rule find_map_Word) simp
    with AddWord_present [OF tbl True] found
    have "GetWord (db (final (AddWord v s))) w = Inr (?f r)"
      by (simp add: GetWord_def)
    moreover have "Int64 (AddedCount r) \<le> Int64 (AddedCount (?f r))"
      by (simp add: Int64_def sql_plus1_def split: option.split)
    moreover have "LookupCount (?f r) = LookupCount r" by simp
    ultimately show ?thesis by blast
  qed
qed

lemma add_words_keeps:
  "GetWord (db s) w = Inr r \<Longrightarrow>
   \<exists>r'. GetWord (db (final (add_words vs s))) w = Inr r'
           \<and> Int64 (AddedCount r) \<le> Int64 (AddedCount r')
           \<and> LookupCount r' = LookupCount r"
proof (induction vs arbitrary: s r)
  case Nil
  then show ?case by simp
next
  case (Cons v vs)
  from AddWord_keeps [OF Cons.prems, of v] obtain r1
    where r1: "GetWord (db (final (AddWord v s))) w = Inr r1"
      and le1: "Int64 (AddedCount r) \<le> Int64 (AddedCount r1)"
      and lk1: "LookupCount r1 = LookupCount r"
    by blast
  show ?case
  proof (cases "AddWord v s")
    case (Returned s1)
    with r1 have "GetWord (db s1) w = Inr r1" by simp
    from Cons.IH [OF this] obtain r2
      where "GetWord (db (final (add_words vs s1))) w = Inr r2"
        and "Int64 (AddedCount r1) \<le> Int64 (AddedCount r2)"
        and "LookupCount r2 = LookupCount r1"
      by blast
    with le1 lk1 Returned show ?thesis by auto
  next
    case (Fatal s1)
    with r1 le1 lk1 show ?thesis by auto
  next
    case (Serving s1)
    with r1 le1 lk1 show ?thesis by auto
  qed
qed

lemma DelWord_other:
  assumes "v \<noteq> w"
  shows "GetWord (db (final (DelWord v s))) w = GetWord (db s) w"
proof (cases "db s")
  case None
  then show ?thesis by (simp add: DelWord_no_table)
next
  case (Some rows)
  from assms have "find (\<lambda>r. Word r \<noteq> v \<and> Word r = w) rows = find (\<lambda>r. Word r = w) rows"
    by (intro find_cong) auto
  with Some show ?thesis by (simp add: DelWord_table GetWord_def find_filter)
qed

lemma db_handle: "db (handle tmpl req s) = db s"
  by (cases req) simp_all

lemma db_fold_handle: "db (fold (handle tmpl) reqs s) = db s"
  by (induction reqs arbitrary: s) (simp_all add: db_handle)

lemma db_RunWebServer: "db (final (RunWebServer P port reqs s)) = db s"
  by (cases P) (simp_all add: RunWebServer_def db_fold_handle)

lemma db_perform_serve: "db (final (perform U P (OpServe port reqs) s)) = db s"
  by (simp add: perform_def main_def no_flags_def db_RunWebServer)

lemma db_perform_show: "db (final (perform U P OpShow s)) = db s"
  by (simp add: perform_show ShowSummary_def)

lemma db_perform_init:
  "db (final (perform U P OpInit s)) = (case db s of None \<Rightarrow> Some [] | Some rows \<Rightarrow> Some rows)"
  by (simp add: perform_init Init_def CreateTable_def split: option.split)

lemma perform_delete_empty: "perform U P (OpDelete []) s = Returned s"
  by (simp add: perform_def main_def no_flags_def)

lemma perform_keeps:
  assumes "GetWord (db s) w = Inr r" and "opn \<noteq> OpDelete w"
  shows "\<exists>r'. GetWord (db (final (perform U P opn s))) w = Inr r'
           \<and> Int64 (AddedCount r) \<le> Int64 (AddedCount r')
           \<and> LookupCount r' = LookupCount r"
proof (cases opn)
  case OpInit
  from assms(1) obtain rows where "db s = Some rows" by (auto simp: GetWord_Inr_iff)
  then have "db (final (perform U P OpInit s)) = db s" by (simp add: db_perform_init)
  with assms(1) OpInit show ?thesis by simp
next
  case (OpAdd a)
  show ?thesis
  proof (cases "a = []")
    case True
    with assms(1) OpAdd show ?thesis by (simp add: perform_add_empty)
  next
    case False
    with OpAdd add_words_keeps [OF assms(1), of "filterWords U a"]
    show ?thesis by (simp add: perform_add)
  qed
next
  case (OpDelete v)
  with assms(2) have neq: "v \<noteq> w" by simp
  show ?thesis
  proof (cases "v = []")
    case True
    with assms(1) OpDelete show ?thesis by (simp add: perform_delete_empty)
  next
    case False
    with OpDelete assms(1) DelWord_other [OF neq, of s]
    show ?thesis by (simp add: perform_delete)
  qed
next
  case OpShow
  with assms(1) show ?thesis by (simp add: db_perform_show)
next
  case (OpServe port reqs)
  with assms(1) show ?thesis by (simp add: db_perform_serve)
qed

lemma run_keeps:
  "GetWord (db s) w = Inr r \<Longrightarrow> OpDelete w \<notin> set ops \<Longrightarrow>
   \<exists>r'. GetWord (db (run U P ops s)) w = Inr r'
           \<and> Int64 (AddedCount r) \<le> Int64 (AddedCount r')
           \<and> LookupCount r' = LookupCount r"
proof (induction ops arbitrary: s r)
  case Nil
  then show ?case by simp
next
  case (Cons opn ops)
  then have "opn \<noteq> OpDelete w" and rest: "OpDelete w \<notin> set ops" by auto
  from perform_keeps [OF Cons.prems(1) this(1), of U P] obtain r1
    where r1: "GetWord (db (final (perform U P opn s))) w = Inr r1"
      and le1: "Int64 (AddedCount r) \<le> Int64 (AddedCount r1)"
      and lk1: "LookupCount r1 = LookupCount r"
    by blast
  from Cons.IH [OF r1 rest] obtain r2
    where "GetWord (db (run U P ops (final (perform U P opn s)))) w = Inr r2"
      and "Int64 (AddedCount r1) \<le> Int64 (AddedCount r2)"
      and "LookupCount r2 = LookupCount r1"
    by blast
  with le1 lk1 show ?case by auto
qed

lemma AddWord_lookup_zero:
  assumes "\<forall>rows. db s = Some rows \<longrightarrow> (\<forall>x \<in> set rows. Word x = w \<longrightarrow> LookupCount x = Some 0)"
  shows "\<forall>rows'. db (final (AddWord v s)) = Some rows' \<longrightarrow>
           (\<forall>x \<in> set rows'. Word x = w \<longrightarrow> LookupCount x = Some 0)"
proof (cases "db s")
  case None
  then show ?thesis by (simp add: AddWord_no_table)
next
  case (Some rows)
  show ?thesis
  proof (cases "\<exists>x \<in> set rows. Word x = v")
    case False
    then have "\<forall>x \<in> set rows. Word x \<noteq> v" by simp
    from AddWord_absent [OF Some this] assms Some show ?thesis by auto
  next
    case True
    from AddWord_present [OF Some True] assms Some show ?thesis by auto
  qed
qed

lemma add_words_lookup_zero:
  "\<forall>rows. db s = Some rows \<longrightarrow> (\<forall>x \<in> set rows. Word x = w \<longrightarrow> LookupCount x = Some 0) \<Longrightarrow>
   \<forall>rows'. db (final (add_words vs s)) = Some rows' \<longrightarrow>
           (\<forall>x \<in> set rows'. Word x = w \<longrightarrow> LookupCount x = Some 0)"
proof (induction vs arbitrary: s)
  case Nil
  then show ?case by simp
next
  case (Cons v vs)
  note step = AddWord_lookup_zero [OF Cons.prems, of v]
  show ?case
  proof (cases "AddWord v s")
    case (Returned s1)
    with step have "\<forall>rows. db s1 = Some rows \<longrightarrow>
        (\<forall>x \<in> set rows. Word x = w \<longrightarrow> LookupCount x = Some 0)" by simp
    from Cons.IH [OF this] Returned show ?thesis by simp
  next
    case (Fatal s1)
    with step show ?thesis by simp
  next
    case (Serving s1)
    with step show ?thesis by simp
  qed
qed

lemma DelWord_lookup_zero:
  assumes "\<forall>rows. db s = Some rows \<longrightarrow> (\<forall>x \<in> set rows. Word x = w \<longrightarrow> LookupCount x = Some 0)"
  shows "\<forall>rows'. db (final (DelWord v s)) = Some rows' \<longrightarrow>
           (\<forall>x \<in> set rows'. Word x = w \<longrightarrow> LookupCount x = Some 0)"
proof (cases "db s")
  case None
  then show ?thesis by (simp add: DelWord_no_table)
next
  case (Some rows)
  with assms show ?thesis by (auto simp: DelWord_table)
qed

lemma perform_lookup_zero:
  assumes "\<forall>rows. db s = Some rows \<longrightarrow> (\<forall>x \<in> set rows. Word x = w \<longrightarrow> LookupCount x = Some 0)"
  shows "\<forall>rows'. db (final (perform U P opn s)) = Some rows' \<longrightarrow>
           (\<forall>x \<in> set rows'. Word x = w \<longrightarrow> LookupCount x = Some 0)"
proof (cases opn)
  case OpInit
  with assms show ?thesis by (cases "db s") (simp_all add: db_perform_init)
next
  case (OpAdd a)
  show ?thesis
  proof (cases "a = []")
    case True
    with assms OpAdd show ?thesis by (simp add: perform_add_empty)
  next
    case False
    with OpAdd add_words_lookup_zero [OF assms, of "filterWords U a"]
    show ?thesis by (simp add: perform_add)
  qed
next
  case (OpDelete v)
  show ?thesis
  proof (cases "v = []")
    case True
    with assms OpDelete show ?thesis by (simp add: perform_delete_empty)
  next
    case False
    with OpDelete DelWord_lookup_zero [OF assms, of v]
    show ?thesis by (simp add: perform_delete)
  qed
next
  case OpShow
  with assms show ?thesis by (simp add: db_perform_show)
next
  case (OpServe port reqs)
  with assms show ?thesis by (simp add: db_perform_serve)
qed

lemma run_lookup_zero:
  "\<forall>rows. db s = Some rows \<longrightarrow> (\<forall>x \<in> set rows. Word x = w \<longrightarrow> LookupCount x = Some 0) \<Longrightarrow>
   \<forall>rows'. db (run U P ops s) = Some rows' \<longrightarrow>
           (\<forall>x \<in> set rows'. Word x = w \<longrightarrow> LookupCount x = Some 0)"
proof (induction ops arbitrary: s)
  case Nil
  then show ?case by simp
next
  case (Cons opn ops)
  from Cons.IH [OF perform_lookup_zero [OF Cons.prems, of U P opn]]
  show ?case by simp
qed

text \<open>
  Claim C4. Take any sequence of runs of the exposed operations (init, add, delete,
  show, serve) and a word that has a record at the start and that no run of the
  sequence deletes. At the end the word still has a record, its added count is not
  smaller than at the start, and its lookup count is the one it had: no operation
  lowers a counter and none changes the lookup count. Moreover, over any sequence of
  runs whatever, if every record of the word has lookup count 0 at the start (in
  particular if the word has no record yet), then so has every record of the word at
  the end: the lookup count is 0 from creation to deletion.
\<close>

theorem counters_never_decrease:
  "(GetWord (db s) w = Inr r \<and> OpDelete w \<notin> set ops \<longrightarrow>
      (\<exists>r'. GetWord (db (run U P ops s)) w = Inr r'
         \<and> Int64 (AddedCount r) \<le> Int64 (AddedCount r')
         \<and> LookupCount r' = LookupCount r))
   \<and> ((\<forall>rows. db s = Some rows \<longrightarrow>
          (\<forall>x \<in> set rows. Word x = w \<longrightarrow> LookupCount x = Some 0)) \<longrightarrow>
       (\<forall>rows'. db (run U P ops s) = Some rows' \<longrightarrow>
          (\<forall>x \<in> set rows'. Word x = w \<longrightarrow> LookupCount x = Some 0)))"
proof (intro conjI impI)
  assume "GetWord (db s) w = Inr r \<and> OpDelete w \<notin> set ops"
  then show "\<exists>r'. GetWord (db (run U P ops s)) w = Inr r'
         \<and> Int64 (AddedCount r) \<le> Int64 (AddedCount r')
         \<and> LookupCount r' = LookupCount r"
    using run_keeps [of s w r ops U P] by blast
next
  assume "\<forall>rows. db s = Some rows \<longrightarrow>
          (\<forall>x \<in> set rows. Word x = w \<longrightarrow> LookupCount x = Some 0)"
  then show "\<forall>rows'. db (run U P ops s) = Some rows' \<longrightarrow>
          (\<forall>x \<in> set rows'. Word x = w \<longrightarrow> LookupCount x = Some 0)"
    by (rule run_lookup_zero)
qed

theorem counters_never_decrease_witness:
  "GetWord (db (run \<lparr>TrimFunc_IsSpace = id, Map_ToLower = id\<rparr> (Inr words_html)
          [OpAdd ''cat,dog'', OpShow, OpDelete ''dog'', OpAdd ''cat'',
           OpServe 8080 [ToRoot ''/'', ToWord ''/word/cat''], OpInit]
          \<lparr>db = Some [\<lparr>Word = ''cat'', ZhTrans = None, AddedCount = Some 3,
                        LookupCount = Some 0\<rparr>],
           stdout = [], stderr = [], responses = []\<rparr>)) ''cat'' =
     Inr \<lparr>Word = ''cat'', ZhTrans = None, AddedCount = Some 5, LookupCount = Some 0\<rparr>"
proof -
  let ?U = "\<lparr>TrimFunc_IsSpace = id, Map_ToLower = id\<rparr>"
  let ?s = "\<lparr>db = Some [\<lparr>Word = ''cat'', ZhTrans = None, AddedCount = Some 3,
                        LookupCount = Some 0\<rparr>],
           stdout = [], stderr = [], responses = []\<rparr>"
  let ?ops = "[OpAdd ''cat,dog'', OpShow, OpDelete ''dog'', OpAdd ''cat'',
           OpServe 8080 [ToRoot ''/'', ToWord ''/word/cat''], OpInit]"
  have f1: "filterWords ?U ''cat,dog'' = [''cat'', ''dog'']"
    by (simp add: string_defs)
  have f2: "filterWords ?U ''cat'' = [''cat'']"
    by (simp add: string_defs)
  have "db (run ?U (Inr words_html) ?ops ?s) =
      Some [\<lparr>Word = ''cat'', ZhTrans = None, AddedCount = Some 5, LookupCount = Some 0\<rparr>]"
    by (simp add: perform_add perform_show perform_delete perform_init f1 f2
        perform_def [of _ _ "OpServe _ _"] main_def no_flags_def
        AddWord_def CountWord_def CreateWord_def AddWordCount_def sql_plus1_def
        ShowSummary_def DelWord_def DeleteWord_def RunWebServer_def Init_def CreateTable_def)
  then show ?thesis
    using counters_never_decrease
      [of ?s "''cat''"
          "\<lparr>Word = ''cat'', ZhTrans = None, AddedCount = Some 3, LookupCount = Some 0\<rparr>"
          ?ops ?U "Inr words_html"]
    by (simp add: GetWord_def)
qed

end
